theory Spec2Isabelle
  imports Complex_Main "HOL-Library.Signed_Division" "HOL-Library.Product_Lexorder"
    "HOL-Library.Multiset"
begin

section \<open>Values of the Go runtime and standard library\<close>

text \<open>
  The program is written in Go. Its \<^verbatim>\<open>int\<close> counters are modelled by \<^typ>\<open>int\<close>: every
  counter of a competitor changes by at most five per event, so the 64-bit range is never
  left. A \<^verbatim>\<open>time.Duration\<close> is a number of nanoseconds. A \<^verbatim>\<open>time.Time\<close> is modelled by the
  number of nanoseconds since Go's zero time (January 1 of year 1, 00:00:00 UTC), so that
  \<^verbatim>\<open>IsZero\<close> is the test for 0. A string is the list of its bytes.
\<close>

type_synonym Time = int
type_synonym Duration = int

definition Nanosecond :: Duration where "Nanosecond = 1"
definition Microsecond :: Duration where "Microsecond = 1000"
definition Millisecond :: Duration where "Millisecond = 1000000"
definition Second :: Duration where "Second = 1000000000"
definition Minute :: Duration where "Minute = 60000000000"
definition Hour :: Duration where "Hour = 3600000000000"
definition minDuration :: Duration where "minDuration = - (2 ^ 63)"
definition maxDuration :: Duration where "maxDuration = 2 ^ 63 - 1"

definition IsZero :: "Time \<Rightarrow> bool" where
  "IsZero t = (t = 0)"

definition Time_Add :: "Time \<Rightarrow> Duration \<Rightarrow> Time" where
  "Time_Add t d = t + d"

text \<open>\<^verbatim>\<open>Time.Sub\<close> saturates at the largest and smallest duration.\<close>

definition Time_Sub :: "Time \<Rightarrow> Time \<Rightarrow> Duration" where
  "Time_Sub t u =
     (let d = t - u in
      if d > maxDuration then maxDuration
      else if d < minDuration then minDuration
      else d)"

definition Time_After :: "Time \<Rightarrow> Time \<Rightarrow> bool" where
  "Time_After t u = (u < t)"

definition Time_Before :: "Time \<Rightarrow> Time \<Rightarrow> bool" where
  "Time_Before t u = (t < u)"

subsection \<open>Floating point\<close>

text \<open>
  A \<^verbatim>\<open>float64\<close> is modelled by the real number it denotes. An operation of the source on
  \<^verbatim>\<open>float64\<close> values, and a conversion of an integer to \<^verbatim>\<open>float64\<close>, is the operation on
  the reals followed by \<open>float64\<close>, which rounds to the nearest number with a significand
  of 53 bits, a tie going to the even significand: the absolute value is multiplied or
  divided by the power of two \<open>s\<close> that brings it between \<open>2 ^ 52\<close> and \<open>2 ^ 53\<close>, rounded to
  an integer, and scaled back. \<open>powerOfTwoFrom 1 t\<close> is the least power of two that is not
  below \<open>t\<close>. The exponent is not bounded and zero has no sign here: there are no
  infinities, no NaN, no negative zero and no subnormal numbers. The program reaches
  none of them from 64-bit integers and positive configured lengths between the inverse
  of \<open>10 ^ 280\<close> and \<open>10 ^ 280\<close>.
\<close>

definition round_half_even :: "real \<Rightarrow> int" where
  "round_half_even y =
     (let fl = \<lfloor>y\<rfloor>; fr = y - of_int fl in
      if fr < 1 / 2 then fl
      else if 1 / 2 < fr then fl + 1
      else if even fl then fl else fl + 1)"

function powerOfTwoFrom :: "int \<Rightarrow> int \<Rightarrow> int" where
  "powerOfTwoFrom p t = (if 0 < p \<and> p < t then powerOfTwoFrom (2 * p) t else p)"
  by pat_completeness auto

termination
  by (relation "measure (\<lambda>(p, t). nat (t - p))") auto

declare powerOfTwoFrom.simps [simp del]

definition float64 :: "real \<Rightarrow> real" where
  "float64 x =
     (let a = \<bar>x\<bar>;
          r = (if a = 0 then 0
               else if a < 2 ^ 52
               then (let s = powerOfTwoFrom 1 \<lceil>2 ^ 52 / a\<rceil>
                     in real_of_int (round_half_even (a * real_of_int s)) / real_of_int s)
               else (let s = powerOfTwoFrom 1 (\<lfloor>a / 2 ^ 53\<rfloor> + 1)
                     in real_of_int (round_half_even (a / real_of_int s)) * real_of_int s))
      in if x < 0 then - r else r)"

text \<open>
  \<^verbatim>\<open>Duration.Seconds\<close> is \<^verbatim>\<open>float64(sec) + float64(nsec)/1e9\<close>, for the whole seconds
  \<^verbatim>\<open>sec\<close> and the remaining nanoseconds \<^verbatim>\<open>nsec\<close>.
\<close>

definition Duration_Seconds :: "Duration \<Rightarrow> real" where
  "Duration_Seconds d =
     (let sec = d sdiv Second; nsec = d smod Second
      in float64 (float64 (real_of_int sec) + float64 (float64 (real_of_int nsec) / 1000000000)))"

text \<open>
  \<^verbatim>\<open>Duration.Round\<close> rounds to the nearest multiple of \<open>m\<close>, halfway values away from
  zero, and returns the extreme duration where the 64-bit result would overflow.
\<close>

definition lessThanHalf :: "Duration \<Rightarrow> Duration \<Rightarrow> bool" where
  "lessThanHalf x y = (x + x < y)"

definition Duration_Round :: "Duration \<Rightarrow> Duration \<Rightarrow> Duration" where
  "Duration_Round d m =
     (if m \<le> 0 then d
      else let r = d smod m in
        if d < 0 then
          (let r = - r in
           if lessThanHalf r m then d + r
           else let d1 = d - m + r in if minDuration \<le> d1 then d1 else minDuration)
        else if lessThanHalf r m then d - r
        else let d1 = d + m - r in if d1 \<le> maxDuration then d1 else maxDuration)"

subsection \<open>Decimal text\<close>

fun show_nat :: "nat \<Rightarrow> string" where
  "show_nat n =
     (if n < 10 then [char_of (48 + n)]
      else show_nat (n div 10) @ [char_of (48 + n mod 10)])"

declare show_nat.simps [simp del]

definition zero_pad :: "nat \<Rightarrow> string \<Rightarrow> string" where
  "zero_pad w s = replicate (w - length s) (CHR ''0'') @ s"

text \<open>\<^verbatim>\<open>%d\<close> and \<^verbatim>\<open>%0wd\<close> of \<^verbatim>\<open>fmt.Sprintf\<close>; with a width, the sign takes one column.\<close>

definition Sprintf_d :: "int \<Rightarrow> string" where
  "Sprintf_d n = (if n < 0 then CHR ''-'' # show_nat (nat (- n)) else show_nat (nat n))"

definition Sprintf_0d :: "nat \<Rightarrow> int \<Rightarrow> string" where
  "Sprintf_0d w n =
     (if n < 0 then CHR ''-'' # zero_pad (w - 1) (show_nat (nat (- n)))
      else zero_pad w (show_nat (nat n)))"

text \<open>
  \<^verbatim>\<open>%.3f\<close>: the decimal with three places that is nearest to the value, an exact tie going
  to the even neighbour.
\<close>

definition Sprintf_f3 :: "real \<Rightarrow> string" where
  "Sprintf_f3 x =
     (let r = round_half_even (\<bar>x\<bar> * 1000);
          body = show_nat (nat (r div 1000)) @ ''.'' @ zero_pad 3 (show_nat (nat (r mod 1000)))
      in if x < 0 then CHR ''-'' # body else body)"

definition isDigit :: "char \<Rightarrow> bool" where
  "isDigit c = ((48::nat) \<le> of_char c \<and> of_char c \<le> (57::nat))"

definition digitVal :: "char \<Rightarrow> int" where
  "digitVal c = int (of_char c) - 48"

fun strings_Split :: "string \<Rightarrow> char \<Rightarrow> string list" where
  "strings_Split [] sep = [[]]"
| "strings_Split (c # cs) sep =
     (if c = sep then [] # strings_Split cs sep
      else (case strings_Split cs sep of [] \<Rightarrow> [[c]] | p # ps \<Rightarrow> (c # p) # ps))"

fun strings_Join :: "string list \<Rightarrow> string \<Rightarrow> string" where
  "strings_Join [] sep = []"
| "strings_Join [p] sep = p"
| "strings_Join (p # q # ps) sep = p @ sep @ strings_Join (q # ps) sep"

definition strings_Trim :: "string \<Rightarrow> string \<Rightarrow> string" where
  "strings_Trim s cutset =
     rev (dropWhile (\<lambda>c. c \<in> set cutset) (rev (dropWhile (\<lambda>c. c \<in> set cutset) s)))"

text \<open>
  \<^verbatim>\<open>strings.Fields\<close> splits around the runs of white space, which is that of
  \<^verbatim>\<open>unicode.IsSpace\<close>: the six of ASCII, and U+0085, U+00A0, U+1680, U+2000 to U+200A,
  U+2028, U+2029, U+202F, U+205F and U+3000. A string of Go is a sequence of bytes, read
  as UTF-8; \<open>wideSpace\<close> lists the encodings of those beyond ASCII. Each of them begins
  with a byte that continues no other encoding, so that one of them that is found at
  some byte is a rune of the string. \<open>spaceWidth\<close> is the number of bytes of the white
  space that begins the string, and 0 where none begins; \<open>digit7\<close> is the highest bit of a
  byte, which is set in the bytes beyond ASCII. In \<open>Fields_loop\<close>, \<open>skip\<close> counts the
  bytes of a white space that are still to be passed.
\<close>

definition isSpace :: "char \<Rightarrow> bool" where
  "isSpace c = (c \<in> set [CHR '' '', CHR 0x09, CHR 0x0A, CHR 0x0B, CHR 0x0C, CHR 0x0D])"

definition wideSpace :: "string list" where
  "wideSpace =
     [[CHR 0xC2, CHR 0x85], [CHR 0xC2, CHR 0xA0], [CHR 0xE1, CHR 0x9A, CHR 0x80],
      [CHR 0xE2, CHR 0x80, CHR 0x80], [CHR 0xE2, CHR 0x80, CHR 0x81],
      [CHR 0xE2, CHR 0x80, CHR 0x82], [CHR 0xE2, CHR 0x80, CHR 0x83],
      [CHR 0xE2, CHR 0x80, CHR 0x84], [CHR 0xE2, CHR 0x80, CHR 0x85],
      [CHR 0xE2, CHR 0x80, CHR 0x86], [CHR 0xE2, CHR 0x80, CHR 0x87],
      [CHR 0xE2, CHR 0x80, CHR 0x88], [CHR 0xE2, CHR 0x80, CHR 0x89],
      [CHR 0xE2, CHR 0x80, CHR 0x8A], [CHR 0xE2, CHR 0x80, CHR 0xA8],
      [CHR 0xE2, CHR 0x80, CHR 0xA9], [CHR 0xE2, CHR 0x80, CHR 0xAF],
      [CHR 0xE2, CHR 0x81, CHR 0x9F], [CHR 0xE3, CHR 0x80, CHR 0x80]]"

fun spaceWidth :: "string \<Rightarrow> nat" where
  "spaceWidth [] = 0"
| "spaceWidth (c # cs) =
     (if \<not> digit7 c then (if isSpace c then 1 else 0)
      else case filter (\<lambda>w. take (length w) (c # cs) = w) wideSpace of
             [] \<Rightarrow> 0
           | w # ws \<Rightarrow> length w)"

fun Fields_loop :: "nat \<Rightarrow> string \<Rightarrow> string \<Rightarrow> string list" where
  "Fields_loop skip cur [] = (if cur = [] then [] else [cur])"
| "Fields_loop skip cur (c # cs) =
     (if 0 < skip then Fields_loop (skip - 1) cur cs
      else if 0 < spaceWidth (c # cs)
        then (if cur = [] then Fields_loop (spaceWidth (c # cs) - 1) [] cs
              else cur # Fields_loop (spaceWidth (c # cs) - 1) [] cs)
      else Fields_loop 0 (cur @ [c]) cs)"

definition strings_Fields :: "string \<Rightarrow> string list" where
  "strings_Fields s = Fields_loop 0 [] s"

subsection \<open>Numbers read by the standard library\<close>

text \<open>
  \<^verbatim>\<open>leadingInt\<close> and \<^verbatim>\<open>leadingFraction\<close> of package \<^verbatim>\<open>time\<close> read digits into an unsigned
  64-bit number and check for overflow before every step, so that no step wraps around;
  the numbers are integers here.
\<close>

fun leadingInt_loop :: "int \<Rightarrow> string \<Rightarrow> (int \<times> string) option" where
  "leadingInt_loop x [] = Some (x, [])"
| "leadingInt_loop x (c # cs) =
     (if \<not> isDigit c then Some (x, c # cs)
      else if x > 2 ^ 63 div 10 then None
      else let x = x * 10 + digitVal c in
        if x > 2 ^ 63 then None else leadingInt_loop x cs)"

definition leadingInt :: "string \<Rightarrow> (int \<times> string) option" where
  "leadingInt s = leadingInt_loop 0 s"

fun leadingFraction_loop :: "int \<Rightarrow> int \<Rightarrow> bool \<Rightarrow> string \<Rightarrow> int \<times> int \<times> string" where
  "leadingFraction_loop x scale overflow [] = (x, scale, [])"
| "leadingFraction_loop x scale overflow (c # cs) =
     (if \<not> isDigit c then (x, scale, c # cs)
      else if overflow then leadingFraction_loop x scale overflow cs
      else if x > (2 ^ 63 - 1) div 10 then leadingFraction_loop x scale True cs
      else let y = x * 10 + digitVal c in
        if y > 2 ^ 63 then leadingFraction_loop x scale True cs
        else leadingFraction_loop y (scale * 10) False cs)"

definition leadingFraction :: "string \<Rightarrow> int \<times> int \<times> string" where
  "leadingFraction s = leadingFraction_loop 0 1 False s"

text \<open>\<^verbatim>\<open>strconv.Atoi\<close>: an optional sign and decimal digits, within 64 bits.\<close>

definition strconv_Atoi :: "string \<Rightarrow> int option" where
  "strconv_Atoi s0 =
     (let neg = (s0 \<noteq> [] \<and> hd s0 = CHR ''-'');
          s = (if s0 \<noteq> [] \<and> (hd s0 = CHR ''-'' \<or> hd s0 = CHR ''+'') then tl s0 else s0)
      in if s = [] \<or> \<not> list_all isDigit s then None
         else let n = foldl (\<lambda>a c. a * 10 + digitVal c) 0 s in
           if neg then (if n \<le> 2 ^ 63 then Some (- n) else None)
           else (if n \<le> 2 ^ 63 - 1 then Some n else None))"

text \<open>\<^verbatim>\<open>atoi\<close> of package \<^verbatim>\<open>time\<close>: a sign, then \<^verbatim>\<open>leadingInt\<close> with nothing left over.\<close>

definition time_atoi :: "string \<Rightarrow> int option" where
  "time_atoi s0 =
     (let neg = (s0 \<noteq> [] \<and> hd s0 = CHR ''-'');
          s = (if s0 \<noteq> [] \<and> (hd s0 = CHR ''-'' \<or> hd s0 = CHR ''+'') then tl s0 else s0)
      in case leadingInt s of
           None \<Rightarrow> None
         | Some (q, rem) \<Rightarrow>
             if rem \<noteq> [] then None else Some (if neg then - q else q))"

subsection \<open>\<^verbatim>\<open>time.ParseDuration\<close>\<close>

definition unitMap :: "string \<Rightarrow> int option" where
  "unitMap u =
     (if u = ''ns'' then Some 1
      else if u = ''us'' then Some 1000
      else if u = [char_of (194::nat), char_of (181::nat), CHR ''s''] then Some 1000
      else if u = [char_of (206::nat), char_of (188::nat), CHR ''s''] then Some 1000
      else if u = ''ms'' then Some 1000000
      else if u = ''s'' then Some 1000000000
      else if u = ''m'' then Some 60000000000
      else if u = ''h'' then Some 3600000000000
      else None)"

definition isNumberByte :: "char \<Rightarrow> bool" where
  "isNumberByte c = (c = CHR ''.'' \<or> isDigit c)"

text \<open>
  One pass of the loop of \<^verbatim>\<open>ParseDuration\<close>: a number, an optional fraction and a unit.
  The library scales the fraction in floating point and cuts the result to an integer,
  \<^verbatim>\<open>uint64(float64(f) * (float64(unit) / scale))\<close>. The \<^verbatim>\<open>scale\<close> is a power of ten, at most
  \<open>10 ^ 19\<close>, and as such a \<^verbatim>\<open>float64\<close> without rounding.
\<close>

definition parseTerm :: "string \<Rightarrow> (int \<times> string) option" where
  "parseTerm s =
     (if s = [] \<or> \<not> isNumberByte (hd s) then None
      else case leadingInt s of
        None \<Rightarrow> None
      | Some (v, s1) \<Rightarrow>
          let pre = (length s \<noteq> length s1);
              hasDot = (s1 \<noteq> [] \<and> hd s1 = CHR ''.'');
              fr = (if hasDot then leadingFraction (tl s1) else (0, 1, s1));
              f = fst fr;
              scale = fst (snd fr);
              s2 = snd (snd fr);
              post = (hasDot \<and> length (tl s1) \<noteq> length s2)
          in if \<not> pre \<and> \<not> post then None
             else let u = takeWhile (\<lambda>c. \<not> isNumberByte c) s2;
                      s3 = dropWhile (\<lambda>c. \<not> isNumberByte c) s2
                  in if u = [] then None
                     else case unitMap u of
                       None \<Rightarrow> None
                     | Some unit \<Rightarrow>
                         if v > 2 ^ 63 div unit then None
                         else let v = v * unit in
                           if f > 0
                           then (let v = v + \<lfloor>float64 (float64 (real_of_int f)
                                             * float64 (real_of_int unit / real_of_int scale))\<rfloor> in
                                 if v > 2 ^ 63 then None else Some (v, s3))
                           else Some (v, s3))"

lemma leadingInt_loop_length:
  "leadingInt_loop x s = Some (v, r) \<Longrightarrow> length r \<le> length s"
  by (induction x s rule: leadingInt_loop.induct) (auto split: if_splits simp: Let_def)

lemma leadingFraction_loop_length:
  "leadingFraction_loop x sc ov s = (f, sc', r) \<Longrightarrow> length r \<le> length s"
  by (induction x sc ov s arbitrary: f sc' r rule: leadingFraction_loop.induct)
     (auto split: if_splits simp: Let_def le_Suc_eq)

lemma dropWhile_shorter:
  "takeWhile P xs \<noteq> [] \<Longrightarrow> length (dropWhile P xs) < length xs"
  by (induction xs) (auto simp: le_imp_less_Suc length_dropWhile_le split: if_splits)

lemma parseTerm_shorter:
  assumes "parseTerm s = Some (v, r)"
  shows "length r < length s"
proof -
  from assms obtain v0 s1 where li: "leadingInt s = Some (v0, s1)"
    by (auto simp: parseTerm_def split: if_splits option.splits)
  hence l1: "length s1 \<le> length s"
    using leadingInt_loop_length [of 0 s v0 s1] by (simp add: leadingInt_def)
  define s2 where "s2 =
    snd (snd (if s1 \<noteq> [] \<and> hd s1 = CHR ''.'' then leadingFraction (tl s1) else (0, 1, s1)))"
  have l2: "length s2 \<le> length s1"
  proof (cases "s1 \<noteq> [] \<and> hd s1 = CHR ''.''")
    case True
    obtain f sc r' where lf: "leadingFraction (tl s1) = (f, sc, r')"
      by (cases "leadingFraction (tl s1)") auto
    hence "length r' \<le> length (tl s1)"
      using leadingFraction_loop_length [of 0 1 False "tl s1" f sc r']
      by (simp add: leadingFraction_def)
    with True lf show ?thesis by (simp add: s2_def)
  next
    case False
    then show ?thesis by (auto simp: s2_def)
  qed
  from assms li have "takeWhile (\<lambda>c. \<not> isNumberByte c) s2 \<noteq> [] \<and>
      r = dropWhile (\<lambda>c. \<not> isNumberByte c) s2"
    by (auto simp: parseTerm_def s2_def Let_def split: if_splits option.splits)
  hence "length r < length s2"
    by (simp add: dropWhile_shorter)
  with l1 l2 show ?thesis by simp
qed

text \<open>The loop adds the terms in an unsigned 64-bit accumulator.\<close>

function ParseDuration_loop :: "int \<Rightarrow> string \<Rightarrow> int option" where
  "ParseDuration_loop d s =
     (if s = [] then Some d
      else case parseTerm s of
        None \<Rightarrow> None
      | Some (v, rest) \<Rightarrow>
          let d = (d + v) mod 2 ^ 64 in
          if d > 2 ^ 63 then None else ParseDuration_loop d rest)"
  by pat_completeness auto
termination
  by (relation "measure (\<lambda>(d, s). length s)") (auto dest: parseTerm_shorter)

declare ParseDuration_loop.simps [simp del]

definition time_ParseDuration :: "string \<Rightarrow> Duration option" where
  "time_ParseDuration orig =
     (let neg = (orig \<noteq> [] \<and> hd orig = CHR ''-'');
          s = (if orig \<noteq> [] \<and> (hd orig = CHR ''-'' \<or> hd orig = CHR ''+'')
               then tl orig else orig)
      in if s = ''0'' then Some 0
         else if s = [] then None
         else case ParseDuration_loop 0 s of
           None \<Rightarrow> None
         | Some d \<Rightarrow>
             if neg then Some (- d)
             else if d > 2 ^ 63 - 1 then None
             else Some d)"

subsection \<open>\<^verbatim>\<open>time.Parse\<close> and \<^verbatim>\<open>Time.Format\<close> for the layout \<^verbatim>\<open>15:04:05.000\<close>\<close>

definition getnum :: "string \<Rightarrow> bool \<Rightarrow> (int \<times> string) option" where
  "getnum s fixed =
     (case s of
        [] \<Rightarrow> None
      | c0 # r0 \<Rightarrow>
          if \<not> isDigit c0 then None
          else (case r0 of
                  [] \<Rightarrow> if fixed then None else Some (digitVal c0, r0)
                | c1 # r1 \<Rightarrow>
                    if \<not> isDigit c1
                    then (if fixed then None else Some (digitVal c0, r0))
                    else Some (digitVal c0 * 10 + digitVal c1, r1)))"

definition skip :: "string \<Rightarrow> char \<Rightarrow> string option" where
  "skip v c = (case v of [] \<Rightarrow> None | x # r \<Rightarrow> if x = c then Some r else None)"

definition parseNanoseconds :: "string \<Rightarrow> nat \<Rightarrow> int option" where
  "parseNanoseconds v nbytes =
     (if \<not> (hd v = CHR ''.'' \<or> hd v = CHR '','') then None
      else case time_atoi (take (nbytes - 1) (tl v)) of
        None \<Rightarrow> None
      | Some ns \<Rightarrow> if ns < 0 then None else Some (ns * 10 ^ (10 - nbytes)))"

text \<open>
  A time of day without a date is a time of January 1 of year 0, which has 366 days and
  ends where the zero time begins.
\<close>

definition yearZero :: Time where
  "yearZero = - (366 * 24 * Hour)"

definition time_Parse :: "string \<Rightarrow> Time option" where
  "time_Parse v0 =
     (case getnum v0 False of
        None \<Rightarrow> None
      | Some (hour, v1) \<Rightarrow>
          if hour < 0 \<or> 24 \<le> hour then None
          else case skip v1 (CHR '':'') of
            None \<Rightarrow> None
          | Some v2 \<Rightarrow>
              (case getnum v2 True of
                 None \<Rightarrow> None
               | Some (minute, v3) \<Rightarrow>
                   if minute < 0 \<or> 60 \<le> minute then None
                   else case skip v3 (CHR '':'') of
                     None \<Rightarrow> None
                   | Some v4 \<Rightarrow>
                       (case getnum v4 True of
                          None \<Rightarrow> None
                        | Some (sec, v5) \<Rightarrow>
                            if sec < 0 \<or> 60 \<le> sec then None
                            else if length v5 < 4 then None
                            else case parseNanoseconds v5 4 of
                              None \<Rightarrow> None
                            | Some nsec \<Rightarrow>
                                if drop 4 v5 \<noteq> [] then None
                                else Some (yearZero + hour * Hour + minute * Minute
                                           + sec * Second + nsec))))"

definition Time_Format :: "Time \<Rightarrow> string" where
  "Time_Format t =
     (let tod = t mod (24 * Hour);
          h = tod div Hour;
          m = (tod mod Hour) div Minute;
          s = (tod mod Minute) div Second;
          ms = (tod mod Second) div Millisecond
      in Sprintf_0d 2 h @ '':'' @ Sprintf_0d 2 m @ '':'' @ Sprintf_0d 2 s @ ''.''
         @ Sprintf_0d 3 ms)"

section \<open>The domain: errors, time codec, events and competitors\<close>

text \<open>
  Errors are values. The constructors carry what the message of the Go error names; a
  run-time panic (an index out of range) is an error value too.
\<close>

datatype error =
    FailedToParseTime string
  | InvalidDurationFormat string
  | FailedToParseDuration string
  | ErrorParsingStartTime string error
  | ErrorParsingStartDelta string error
  | IncorrectConfigValues
  | InvalidEventString string
  | ErrorParsingEventTime string error
  | ErrorParsingEventID string
  | ErrorParsingAthleteID string
  | UnregisteredCompetitor int int
  | StartTimeMissing int
  | InvalidStartTimeFormat string int error
  | InvalidMilestoneNumber string int
  | MissingMilestoneNumber int
  | InvalidMilestone int int int
  | MilestoneAboveConfigured int int int
  | PanicIndexOutOfRange int nat
  | StringParsingError nat string error
  | TimeOrderBroken nat Time Time
  | EventHandlingError nat string error

definition ParseTimeFromString :: "string \<Rightarrow> error + Time" where
  "ParseTimeFromString timeStr =
     (let trimmedTimeStr = strings_Trim timeStr ''[]'' in
      case time_Parse trimmedTimeStr of
        None \<Rightarrow> Inl (FailedToParseTime timeStr)
      | Some t \<Rightarrow> Inr t)"

definition ParseDurationFromString :: "string \<Rightarrow> error + Duration" where
  "ParseDurationFromString durationStr =
     (let parts = strings_Split durationStr (CHR '':'') in
      if length parts \<noteq> 3 then Inl (InvalidDurationFormat durationStr)
      else let parseableStr = parts ! 0 @ ''h'' @ parts ! 1 @ ''m'' @ parts ! 2 @ ''s'' in
        case time_ParseDuration parseableStr of
          None \<Rightarrow> Inl (FailedToParseDuration durationStr)
        | Some dur \<Rightarrow> Inr dur)"

definition FormatTime :: "Time \<Rightarrow> string" where
  "FormatTime t = ''['' @ Time_Format t @ '']''"

definition FormatDuration :: "Duration \<Rightarrow> string" where
  "FormatDuration dur0 =
     (let dur = Duration_Round dur0 Millisecond;
          h = dur sdiv Hour;
          dur = dur - h * Hour;
          m = dur sdiv Minute;
          dur = dur - m * Minute;
          s = dur sdiv Second;
          dur = dur - s * Second;
          ms = dur sdiv Millisecond
      in Sprintf_0d 2 h @ '':'' @ Sprintf_0d 2 m @ '':'' @ Sprintf_0d 2 s @ ''.''
         @ Sprintf_0d 3 ms)"

definition CalculateSpeed :: "real \<Rightarrow> Duration \<Rightarrow> real" where
  "CalculateSpeed distance duration =
     (if duration \<le> 0 then 0 else float64 (distance / Duration_Seconds duration))"

subsection \<open>Events\<close>

text \<open>
  The field \<^verbatim>\<open>ID\<close> of an event, of Go type \<^verbatim>\<open>EventID\<close>, is the field \<open>EventID\<close> here; the
  field \<open>ID\<close> is the competitor's.
\<close>

definition Register :: int where "Register = 1"
definition SetStartTime :: int where "SetStartTime = 2"
definition OnStartLine :: int where "OnStartLine = 3"
definition Started :: int where "Started = 4"
definition EnterFiringRange :: int where "EnterFiringRange = 5"
definition HitTarget :: int where "HitTarget = 6"
definition LeaveFiringRange :: int where "LeaveFiringRange = 7"
definition EnterPenaltyLaps :: int where "EnterPenaltyLaps = 8"
definition LeavePenaltyLaps :: int where "LeavePenaltyLaps = 9"
definition EndLap :: int where "EndLap = 10"
definition CannotContinue :: int where "CannotContinue = 11"
definition Disqualified :: int where "Disqualified = 32"
definition Finished :: int where "Finished = 33"

lemmas EventID_defs =
  Register_def SetStartTime_def OnStartLine_def Started_def EnterFiringRange_def
  HitTarget_def LeaveFiringRange_def EnterPenaltyLaps_def LeavePenaltyLaps_def EndLap_def
  CannotContinue_def Disqualified_def Finished_def

record Event =
  Timestamp :: Time
  EventID :: int
  CompetitorID :: int
  ExtraParameters :: "string list"
  RawLine :: string
  IsIncoming :: bool

definition ParseEventFromString :: "string \<Rightarrow> error + Event" where
  "ParseEventFromString line =
     (let parts = strings_Fields line in
      if length parts < 3 then Inl (InvalidEventString line)
      else case ParseTimeFromString (parts ! 0) of
        Inl err \<Rightarrow> Inl (ErrorParsingEventTime line err)
      | Inr timestamp \<Rightarrow>
          (case strconv_Atoi (parts ! 1) of
             None \<Rightarrow> Inl (ErrorParsingEventID line)
           | Some eventID \<Rightarrow>
               (case strconv_Atoi (parts ! 2) of
                  None \<Rightarrow> Inl (ErrorParsingAthleteID line)
                | Some competitorID \<Rightarrow>
                    Inr \<lparr>Timestamp = timestamp, EventID = eventID,
                         CompetitorID = competitorID, ExtraParameters = drop 3 parts,
                         RawLine = line,
                         IsIncoming = (Register \<le> eventID \<and> eventID \<le> CannotContinue)\<rparr>)))"

definition Event_String :: "Event \<Rightarrow> string" where
  "Event_String event =
     (let competitorStr = ''competitor('' @ Sprintf_d (CompetitorID event) @ '')'';
          params = ExtraParameters event;
          details =
            (if EventID event = Register then ''The '' @ competitorStr @ '' registered''
             else if EventID event = SetStartTime then
               (let startTimeStr =
                      (if length params > 0
                       then (case time_Parse (params ! 0) of
                               Some parsedTime \<Rightarrow> Time_Format parsedTime
                             | None \<Rightarrow> params ! 0)
                       else ''N/A'')
                in ''The start time for the '' @ competitorStr @ '' was set by a draw to ''
                   @ startTimeStr)
             else if EventID event = OnStartLine then
               ''The '' @ competitorStr @ '' is on the start line''
             else if EventID event = Started then ''The '' @ competitorStr @ '' has started''
             else if EventID event = EnterFiringRange then
               (let rangeNum = (if length params > 0 then params ! 0 else ''?'')
                in ''The '' @ competitorStr @ '' is on the firing range('' @ rangeNum @ '')'')
             else if EventID event = HitTarget then
               (let targetNum = (if length params > 0 then params ! 0 else ''?'')
                in ''The target('' @ targetNum @ '') has been hit by '' @ competitorStr)
             else if EventID event = LeaveFiringRange then
               ''The '' @ competitorStr @ '' left the firing range''
             else if EventID event = EnterPenaltyLaps then
               ''The '' @ competitorStr @ '' entered the penalty laps''
             else if EventID event = LeavePenaltyLaps then
               ''The '' @ competitorStr @ '' left the penalty laps''
             else if EventID event = EndLap then
               ''The '' @ competitorStr @ '' ended the main lap''
             else if EventID event = CannotContinue then
               (let comment = (if length params > 0
                               then '': '' @ strings_Join params '' '' else [])
                in ''The '' @ competitorStr @ '' can`t continue'' @ comment)
             else if EventID event = Disqualified then
               (let reason = (if length params > 0 then strings_Join params '' ''
                              else ''Reason not specified'')
                in ''The '' @ competitorStr @ '' is disqualified ('' @ reason @ '')'')
             else if EventID event = Finished then ''The '' @ competitorStr @ '' has finished''
             else ''Unknown event ID('' @ Sprintf_d (EventID event) @ '') for ''
                  @ competitorStr)
      in FormatTime (Timestamp event) @ '' '' @ details)"

subsection \<open>Competitors\<close>

datatype CompetitorStatus =
    StatusRegistered
  | StatusReadyToStart
  | StatusStarted
  | StatusFiring
  | StatusPenalized
  | StatusFinished
  | StatusNotFinished
  | StatusNotStarted
  | StatusDisqualified

record LapDetail =
  Duration :: Duration
  Speed :: real

record PenaltyDetail =
  TotalDuration :: Duration
  AverageSpeed :: real

record Competitor =
  ID :: int
  Status :: CompetitorStatus
  ScheduledStartTime :: Time
  ActualStartTime :: Time
  FinishTime :: Time
  LastEventTime :: Time
  CurrentLap :: int
  CurrentLapStartTime :: Time
  LapDetails :: "LapDetail list"
  LastFiringRangeEntered :: int
  TotalFiringRangesCompleted :: int
  HitsThisRange :: int
  TotalHits :: int
  TotalShots :: int
  MissesToPenalize :: int
  PenaltyStartTime :: Time
  TotalPenaltyTime :: Duration
  TotalPenaltyLaps :: int
  PenaltyDetails :: PenaltyDetail
  DisqualificationReason :: string

definition NewCompetitor :: "int \<Rightarrow> Time \<Rightarrow> Competitor" where
  "NewCompetitor cid registrationTime =
     \<lparr>ID = cid, Status = StatusRegistered, ScheduledStartTime = 0, ActualStartTime = 0,
      FinishTime = 0, LastEventTime = registrationTime, CurrentLap = 0,
      CurrentLapStartTime = 0, LapDetails = [], LastFiringRangeEntered = 0,
      TotalFiringRangesCompleted = 0, HitsThisRange = 0, TotalHits = 0, TotalShots = 0,
      MissesToPenalize = 0, PenaltyStartTime = 0, TotalPenaltyTime = 0,
      TotalPenaltyLaps = 0, PenaltyDetails = \<lparr>TotalDuration = 0, AverageSpeed = 0\<rparr>,
      DisqualificationReason = []\<rparr>"

definition CalculateTotalTime :: "Competitor \<Rightarrow> Duration \<times> bool" where
  "CalculateTotalTime competitor =
     (if Status competitor \<noteq> StatusFinished then (0, False)
      else if IsZero (ActualStartTime competitor) then (0, False)
      else let startDiff0 = Time_Sub (ActualStartTime competitor) (ScheduledStartTime competitor);
               startDiff = (if startDiff0 < 0 then 0 else startDiff0);
               raceDuration = Time_Sub (FinishTime competitor) (ActualStartTime competitor)
           in (raceDuration + startDiff, True))"

definition FinalStatusString :: "Competitor \<Rightarrow> string" where
  "FinalStatusString competitor =
     (case Status competitor of
        StatusFinished \<Rightarrow>
          (case CalculateTotalTime competitor of
             (totalTime, ok) \<Rightarrow>
               if ok then FormatDuration totalTime else ''[Error Calculating Time]'')
      | StatusNotFinished \<Rightarrow> ''[NotFinished]''
      | StatusNotStarted \<Rightarrow> ''[NotStarted]''
      | StatusDisqualified \<Rightarrow>
          (let reason = (if DisqualificationReason competitor \<noteq> []
                         then '': '' @ DisqualificationReason competitor else [])
           in ''[Disqualified'' @ reason @ '']'')
      | _ \<Rightarrow> ''[In Progress]'')"

section \<open>Configuration\<close>

record Config =
  Laps :: int
  LapLen :: real
  PenaltyLen :: real
  FiringLines :: int
  Start :: string
  StartDelta :: string
  ParsedStart :: Time
  ParsedStartDelta :: Duration

text \<open>
  \<^verbatim>\<open>LoadConfiguration\<close> after the file has been read and its JSON decoded into \<open>cfg\<close>
  (both are outside the model): the two strings are parsed and the numbers checked.
\<close>

definition LoadConfiguration :: "Config \<Rightarrow> error + Config" where
  "LoadConfiguration cfg =
     (case ParseTimeFromString (''['' @ Start cfg @ '']'') of
        Inl err \<Rightarrow> Inl (ErrorParsingStartTime (Start cfg) err)
      | Inr t \<Rightarrow>
          (let cfg = cfg\<lparr>ParsedStart := t\<rparr> in
           case ParseDurationFromString (StartDelta cfg) of
             Inl err \<Rightarrow> Inl (ErrorParsingStartDelta (StartDelta cfg) err)
           | Inr d \<Rightarrow>
               (let cfg = cfg\<lparr>ParsedStartDelta := d\<rparr> in
                if Laps cfg \<le> 0 \<or> LapLen cfg \<le> 0 \<or> PenaltyLen cfg \<le> 0 \<or> FiringLines cfg \<le> 0
                then Inl IncorrectConfigValues
                else Inr cfg)))"

section \<open>The simulator\<close>

text \<open>
  The simulator holds its competitors in a map from the competitor's number to a pointer.
  \<^verbatim>\<open>ProcessEvent\<close> fetches the pointer of the event's competitor once and mutates the
  record behind it; the model takes the record out of the map, passes it through the
  transition and stores it back under the same key, on every path, also those that
  return an error. The functions that receive the pointer (\<^verbatim>\<open>FinishCompetitor\<close>,
  \<^verbatim>\<open>DisqualifyCompetitor\<close>) take the record and return it with the simulator. Warnings
  printed to the console are not part of the state.
\<close>

record Simulator =
  Config :: Config
  Competitors :: "int \<rightharpoonup> Competitor"
  Events :: "Event list"
  CurrentTime :: Time
  OutputLog :: "string list"

definition NewSimulator :: "Config \<Rightarrow> Simulator" where
  "NewSimulator cfg =
     \<lparr>Config = cfg, Competitors = Map.empty, Events = [], CurrentTime = 0, OutputLog = []\<rparr>"

definition penaltySummary :: "Simulator \<Rightarrow> Competitor \<Rightarrow> Competitor" where
  "penaltySummary simulator competitor =
     (if TotalPenaltyLaps competitor > 0 \<and> PenaltyLen (Config simulator) > 0
      then (let totalPenaltyDistance =
                  float64 (float64 (real_of_int (TotalPenaltyLaps competitor))
                           * PenaltyLen (Config simulator));
                avgPenaltySpeed =
                  CalculateSpeed totalPenaltyDistance (TotalPenaltyTime competitor)
            in competitor\<lparr>PenaltyDetails :=
                 \<lparr>TotalDuration = TotalPenaltyTime competitor,
                  AverageSpeed = avgPenaltySpeed\<rparr>\<rparr>)
      else competitor)"

definition FinishCompetitor :: "Simulator \<Rightarrow> Competitor \<Rightarrow> Time \<Rightarrow> Simulator \<times> Competitor" where
  "FinishCompetitor simulator competitor finishTime =
     (if Status competitor = StatusFinished \<or> Status competitor = StatusNotFinished
         \<or> Status competitor = StatusNotStarted \<or> Status competitor = StatusDisqualified
      then (simulator, competitor)
      else let competitor = competitor\<lparr>Status := StatusFinished, FinishTime := finishTime\<rparr>;
               competitor = penaltySummary simulator competitor;
               finishEvent = \<lparr>Timestamp = finishTime, EventID = Finished,
                              CompetitorID = ID competitor, ExtraParameters = [],
                              RawLine = [], IsIncoming = False\<rparr>
           in (simulator\<lparr>Events := Events simulator @ [finishEvent],
                          OutputLog := OutputLog simulator @ [Event_String finishEvent]\<rparr>,
               competitor))"

definition DisqualifyCompetitor ::
  "Simulator \<Rightarrow> Competitor \<Rightarrow> Time \<Rightarrow> string \<Rightarrow> Simulator \<times> Competitor" where
  "DisqualifyCompetitor simulator competitor dqTime reason =
     (if Status competitor = StatusFinished \<or> Status competitor = StatusNotFinished
         \<or> Status competitor = StatusNotStarted \<or> Status competitor = StatusDisqualified
      then (simulator, competitor)
      else let competitor = competitor\<lparr>FinishTime := dqTime\<rparr>;
               competitor = (if reason = ''NotStarted''
                             then competitor\<lparr>Status := StatusNotStarted\<rparr>
                             else competitor\<lparr>Status := StatusDisqualified\<rparr>);
               competitor = competitor\<lparr>DisqualificationReason := reason\<rparr>;
               dqEvent = \<lparr>Timestamp = dqTime, EventID = Disqualified,
                          CompetitorID = ID competitor, ExtraParameters = [reason],
                          RawLine = [], IsIncoming = False\<rparr>;
               alreadyDQEventExists =
                 list_ex (\<lambda>event. \<not> IsIncoming event \<and> EventID event = Disqualified
                                   \<and> CompetitorID event = ID competitor)
                         (Events simulator)
           in if \<not> alreadyDQEventExists
              then (simulator\<lparr>Events := Events simulator @ [dqEvent],
                              OutputLog := OutputLog simulator @ [Event_String dqEvent]\<rparr>,
                    competitor)
              else (simulator, competitor))"

subsection \<open>The cases of the switch in \<^verbatim>\<open>ProcessEvent\<close>\<close>

type_synonym outcome = "Simulator \<times> Competitor \<times> error option"

definition case_SetStartTime :: "Simulator \<Rightarrow> Competitor \<Rightarrow> Event \<Rightarrow> outcome" where
  "case_SetStartTime simulator competitor event =
     (if length (ExtraParameters event) < 1
      then (simulator, competitor, Some (StartTimeMissing (ID competitor)))
      else case ParseTimeFromString (''['' @ ExtraParameters event ! 0 @ '']'') of
        Inl err \<Rightarrow>
          (simulator, competitor,
           Some (InvalidStartTimeFormat (ExtraParameters event ! 0) (ID competitor) err))
      | Inr scheduledTime \<Rightarrow>
          (simulator, competitor\<lparr>ScheduledStartTime := scheduledTime\<rparr>, None))"

definition case_OnStartLine :: "Simulator \<Rightarrow> Competitor \<Rightarrow> Event \<Rightarrow> outcome" where
  "case_OnStartLine simulator competitor event =
     (if Status competitor = StatusRegistered \<or> Status competitor = StatusReadyToStart
      then (simulator, competitor\<lparr>Status := StatusReadyToStart\<rparr>, None)
      else (simulator, competitor, None))"

definition case_Started :: "Simulator \<Rightarrow> Competitor \<Rightarrow> Event \<Rightarrow> outcome" where
  "case_Started simulator competitor event =
     (if \<not> IsZero (ScheduledStartTime competitor)
         \<and> Time_After (Timestamp event)
              (Time_Add (ScheduledStartTime competitor) (ParsedStartDelta (Config simulator)))
      then (case DisqualifyCompetitor simulator competitor (Timestamp event) ''NotStarted'' of
              (simulator, competitor) \<Rightarrow> (simulator, competitor, None))
      else (simulator,
            competitor\<lparr>Status := StatusStarted, ActualStartTime := Timestamp event,
                        CurrentLap := 1, CurrentLapStartTime := Timestamp event\<rparr>,
            None))"

definition case_EnterFiringRange :: "Simulator \<Rightarrow> Competitor \<Rightarrow> Event \<Rightarrow> outcome" where
  "case_EnterFiringRange simulator competitor event =
     (if TotalFiringRangesCompleted competitor \<ge> FiringLines (Config simulator)
      then (case DisqualifyCompetitor simulator competitor (Timestamp event)
                   ''Extra firing line'' of
              (simulator, competitor) \<Rightarrow> (simulator, competitor, None))
      else if \<not> length (ExtraParameters event) > 0
      then (simulator, competitor, Some (MissingMilestoneNumber (ID competitor)))
      else case strconv_Atoi (ExtraParameters event ! 0) of
        None \<Rightarrow>
          (simulator, competitor,
           Some (InvalidMilestoneNumber (ExtraParameters event ! 0) (ID competitor)))
      | Some actualRangeNumFromEvent \<Rightarrow>
          (let expectedRangeGlobalNum = TotalFiringRangesCompleted competitor + 1 in
           if actualRangeNumFromEvent \<noteq> expectedRangeGlobalNum
              \<and> (actualRangeNumFromEvent \<le> 0
                   \<or> actualRangeNumFromEvent > FiringLines (Config simulator))
           then (simulator, competitor,
                 Some (InvalidMilestone actualRangeNumFromEvent (ID competitor)
                         (FiringLines (Config simulator))))
           else if actualRangeNumFromEvent > FiringLines (Config simulator)
           then (simulator, competitor,
                 Some (MilestoneAboveConfigured (ID competitor) actualRangeNumFromEvent
                         (FiringLines (Config simulator))))
           else (simulator,
                 competitor\<lparr>Status := StatusFiring, HitsThisRange := 0,
                             LastFiringRangeEntered := actualRangeNumFromEvent\<rparr>,
                 None)))"

definition case_HitTarget :: "Simulator \<Rightarrow> Competitor \<Rightarrow> Event \<Rightarrow> outcome" where
  "case_HitTarget simulator competitor event =
     (if Status competitor \<noteq> StatusFiring then (simulator, competitor, None)
      else (simulator,
            competitor\<lparr>HitsThisRange := HitsThisRange competitor + 1,
                        TotalHits := TotalHits competitor + 1\<rparr>,
            None))"

definition case_LeaveFiringRange :: "Simulator \<Rightarrow> Competitor \<Rightarrow> Event \<Rightarrow> outcome" where
  "case_LeaveFiringRange simulator competitor event =
     (if Status competitor \<noteq> StatusFiring
      then (simulator, competitor\<lparr>LastFiringRangeEntered := 0\<rparr>, None)
      else let counted = (LastFiringRangeEntered competitor > 0
                          \<and> LastFiringRangeEntered competitor
                              > TotalFiringRangesCompleted competitor);
               shotsThisRange = (if counted then 5 else 0);
               competitor =
                 (if counted
                  then competitor\<lparr>TotalShots := TotalShots competitor + shotsThisRange,
                                   TotalFiringRangesCompleted :=
                                     TotalFiringRangesCompleted competitor + 1\<rparr>
                  else competitor);
               misses0 = shotsThisRange - HitsThisRange competitor;
               misses = (if misses0 < 0 then 0 else misses0);
               competitor = competitor\<lparr>MissesToPenalize := MissesToPenalize competitor + misses\<rparr>;
               competitor = (if MissesToPenalize competitor = 0
                             then competitor\<lparr>Status := StatusStarted\<rparr> else competitor)
           in (simulator,
               competitor\<lparr>HitsThisRange := 0, LastFiringRangeEntered := 0\<rparr>,
               None))"

definition case_EnterPenaltyLaps :: "Simulator \<Rightarrow> Competitor \<Rightarrow> Event \<Rightarrow> outcome" where
  "case_EnterPenaltyLaps simulator competitor event =
     (if PenaltyLen (Config simulator) \<le> 0
      then (simulator, competitor\<lparr>Status := StatusStarted\<rparr>, None)
      else if MissesToPenalize competitor = 0
      then (simulator, competitor\<lparr>Status := StatusStarted\<rparr>, None)
      else (simulator,
            competitor\<lparr>Status := StatusPenalized, PenaltyStartTime := Timestamp event\<rparr>,
            None))"

definition case_LeavePenaltyLaps :: "Simulator \<Rightarrow> Competitor \<Rightarrow> Event \<Rightarrow> outcome" where
  "case_LeavePenaltyLaps simulator competitor event =
     (if Status competitor \<noteq> StatusPenalized \<and> IsZero (PenaltyStartTime competitor)
      then (simulator, competitor, None)
      else let competitor =
                 (if IsZero (PenaltyStartTime competitor) then competitor
                  else let penaltyDuration =
                             Time_Sub (Timestamp event) (PenaltyStartTime competitor);
                           competitor =
                             (if penaltyDuration < 0 then competitor
                              else competitor\<lparr>TotalPenaltyTime :=
                                     TotalPenaltyTime competitor + penaltyDuration\<rparr>)
                       in competitor\<lparr>PenaltyStartTime := 0\<rparr>)
           in (simulator,
               competitor\<lparr>TotalPenaltyLaps :=
                             TotalPenaltyLaps competitor + MissesToPenalize competitor,
                           MissesToPenalize := 0, Status := StatusStarted\<rparr>,
               None))"

text \<open>
  \<^verbatim>\<open>EndLap\<close> grows the slice of laps to the current lap and writes at index
  \<open>CurrentLap - 1\<close>; for a competitor whose current lap is 0 (never started) the index is
  \<open>-1\<close> and the Go program panics.
\<close>

definition case_EndLap :: "Simulator \<Rightarrow> Competitor \<Rightarrow> Event \<Rightarrow> outcome" where
  "case_EndLap simulator competitor event =
     (let lapDuration = Time_Sub (Timestamp event) (CurrentLapStartTime competitor);
          lapSpeed = CalculateSpeed (LapLen (Config simulator)) lapDuration;
          competitor =
            (if int (length (LapDetails competitor)) < CurrentLap competitor
             then competitor\<lparr>LapDetails := LapDetails competitor
                    @ replicate (nat (CurrentLap competitor
                                      - int (length (LapDetails competitor))))
                        \<lparr>Duration = 0, Speed = 0\<rparr>\<rparr>
             else competitor)
      in if CurrentLap competitor - 1 < 0
            \<or> CurrentLap competitor - 1 \<ge> int (length (LapDetails competitor))
         then (simulator, competitor,
               Some (PanicIndexOutOfRange (CurrentLap competitor - 1)
                       (length (LapDetails competitor))))
         else let competitor =
                    competitor\<lparr>LapDetails := (LapDetails competitor)
                      [nat (CurrentLap competitor - 1) :=
                         \<lparr>Duration = lapDuration, Speed = lapSpeed\<rparr>]\<rparr>
              in if CurrentLap competitor \<ge> Laps (Config simulator)
                 then (case FinishCompetitor simulator competitor (Timestamp event) of
                         (simulator, competitor) \<Rightarrow> (simulator, competitor, None))
                 else (simulator,
                       competitor\<lparr>CurrentLap := CurrentLap competitor + 1,
                                   CurrentLapStartTime := Timestamp event\<rparr>,
                       None))"

definition case_CannotContinue :: "Simulator \<Rightarrow> Competitor \<Rightarrow> Event \<Rightarrow> outcome" where
  "case_CannotContinue simulator competitor event =
     (if Status competitor \<noteq> StatusFinished \<and> Status competitor \<noteq> StatusNotStarted
         \<and> Status competitor \<noteq> StatusDisqualified
      then let reason = (if length (ExtraParameters event) > 0
                         then strings_Join (ExtraParameters event) '' ''
                         else ''Reason not specified'');
               competitor = competitor\<lparr>Status := StatusNotFinished,
                                        FinishTime := Timestamp event,
                                        DisqualificationReason := reason\<rparr>
           in (simulator, penaltySummary simulator competitor, None)
      else (simulator, competitor, None))"

definition ProcessEvent_switch :: "Simulator \<Rightarrow> Competitor \<Rightarrow> Event \<Rightarrow> outcome" where
  "ProcessEvent_switch simulator competitor event =
     (if EventID event = SetStartTime then case_SetStartTime simulator competitor event
      else if EventID event = OnStartLine then case_OnStartLine simulator competitor event
      else if EventID event = Started then case_Started simulator competitor event
      else if EventID event = EnterFiringRange
        then case_EnterFiringRange simulator competitor event
      else if EventID event = HitTarget then case_HitTarget simulator competitor event
      else if EventID event = LeaveFiringRange
        then case_LeaveFiringRange simulator competitor event
      else if EventID event = EnterPenaltyLaps
        then case_EnterPenaltyLaps simulator competitor event
      else if EventID event = LeavePenaltyLaps
        then case_LeavePenaltyLaps simulator competitor event
      else if EventID event = EndLap then case_EndLap simulator competitor event
      else if EventID event = CannotContinue
        then case_CannotContinue simulator competitor event
      else (simulator, competitor, None))"

text \<open>
  \<^verbatim>\<open>ProcessEvent\<close> returns the simulator as the call leaves it, and the error if there is
  one (\<open>None\<close> is Go's \<^verbatim>\<open>nil\<close>).
\<close>

definition ProcessEvent :: "Simulator \<Rightarrow> Event \<Rightarrow> Simulator \<times> error option" where
  "ProcessEvent simulator event =
     (let simulator = simulator\<lparr>CurrentTime := Timestamp event,
                                Events := Events simulator @ [event]\<rparr>;
          simulator = (if IsIncoming event
                       then simulator\<lparr>OutputLog := OutputLog simulator @ [Event_String event]\<rparr>
                       else simulator)
      in if EventID event = Register
         then (case Competitors simulator (CompetitorID event) of
                 Some competitor \<Rightarrow> (simulator, None)
               | None \<Rightarrow>
                   (simulator\<lparr>Competitors := (Competitors simulator)
                       (CompetitorID event \<mapsto>
                          NewCompetitor (CompetitorID event) (Timestamp event))\<rparr>,
                    None))
         else case Competitors simulator (CompetitorID event) of
           None \<Rightarrow>
             (simulator, Some (UnregisteredCompetitor (EventID event) (CompetitorID event)))
         | Some competitor \<Rightarrow>
             (let competitor = (if EventID event \<noteq> SetStartTime
                                then competitor\<lparr>LastEventTime := Timestamp event\<rparr>
                                else competitor)
              in case ProcessEvent_switch simulator competitor event of
                   (simulator, competitor, err) \<Rightarrow>
                     (simulator\<lparr>Competitors := (Competitors simulator)
                         (CompetitorID event \<mapsto> competitor)\<rparr>,
                      err)))"

text \<open>
  \<^verbatim>\<open>CheckForNotStarted\<close> ranges over the map; \<open>keys\<close> is the order in which the loop
  visits it.
\<close>

definition CheckForNotStarted_step :: "Simulator \<Rightarrow> int \<Rightarrow> Simulator" where
  "CheckForNotStarted_step simulator k =
     (case Competitors simulator k of
        None \<Rightarrow> simulator
      | Some competitor \<Rightarrow>
          if (Status competitor = StatusRegistered \<or> Status competitor = StatusReadyToStart)
             \<and> IsZero (ActualStartTime competitor)
             \<and> \<not> IsZero (ScheduledStartTime competitor)
          then let startDeadline = Time_Add (ScheduledStartTime competitor)
                                     (ParsedStartDelta (Config simulator))
               in if Time_After (CurrentTime simulator) startDeadline
                     \<and> Status competitor \<noteq> StatusNotFinished
                     \<and> Status competitor \<noteq> StatusDisqualified
                  then (case DisqualifyCompetitor simulator competitor startDeadline
                               ''NotStarted'' of
                          (simulator, competitor) \<Rightarrow>
                            simulator\<lparr>Competitors :=
                              (Competitors simulator)(k \<mapsto> competitor)\<rparr>)
                  else simulator
          else simulator)"

definition CheckForNotStarted :: "Simulator \<Rightarrow> int list \<Rightarrow> Simulator" where
  "CheckForNotStarted simulator keys = foldl CheckForNotStarted_step simulator keys"

text \<open>
  \<^verbatim>\<open>LoadEventsFromFile\<close> on the lines of the file (opening, scanning and closing the file
  are outside the model): empty lines are skipped, every other line is parsed, checked
  against the time of the line before and processed; the first error ends the run. The
  late starters are looked for only after a run without error.
\<close>

fun LoadEvents_loop ::
  "Simulator \<Rightarrow> nat \<Rightarrow> Time \<Rightarrow> string list \<Rightarrow> Simulator \<times> error option" where
  "LoadEvents_loop simulator lineNumber previousTimestamp [] = (simulator, None)"
| "LoadEvents_loop simulator lineNumber previousTimestamp (line # rest) =
     (if line = [] then LoadEvents_loop simulator (lineNumber + 1) previousTimestamp rest
      else case ParseEventFromString line of
        Inl err \<Rightarrow> (simulator, Some (StringParsingError (lineNumber + 1) line err))
      | Inr event \<Rightarrow>
          if \<not> IsZero previousTimestamp \<and> Time_Before (Timestamp event) previousTimestamp
          then (simulator,
                Some (TimeOrderBroken (lineNumber + 1) (Timestamp event) previousTimestamp))
          else (case ProcessEvent simulator event of
                  (simulator, Some err) \<Rightarrow>
                    (simulator, Some (EventHandlingError (lineNumber + 1) line err))
                | (simulator, None) \<Rightarrow>
                    LoadEvents_loop simulator (lineNumber + 1) (Timestamp event) rest))"

definition LoadEventsFromFile ::
  "Simulator \<Rightarrow> string list \<Rightarrow> int list \<Rightarrow> Simulator \<times> error option" where
  "LoadEventsFromFile simulator lines keys =
     (case LoadEvents_loop simulator 0 0 lines of
        (simulator, Some err) \<Rightarrow> (simulator, Some err)
      | (simulator, None) \<Rightarrow> (CheckForNotStarted simulator keys, None))"

section \<open>Ranking\<close>

definition statusRank :: "CompetitorStatus \<Rightarrow> int" where
  "statusRank status =
     (case status of
        StatusNotFinished \<Rightarrow> 1
      | StatusNotStarted \<Rightarrow> 2
      | StatusDisqualified \<Rightarrow> 3
      | _ \<Rightarrow> 4)"

text \<open>The comparison that \<^verbatim>\<open>GetSortedCompetitors\<close> hands to the sort.\<close>

definition sortLess :: "Competitor \<Rightarrow> Competitor \<Rightarrow> bool" where
  "sortLess c1 c2 =
     (let c1IsFinished = (Status c1 = StatusFinished);
          c2IsFinished = (Status c2 = StatusFinished)
      in if c1IsFinished \<and> \<not> c2IsFinished then True
         else if \<not> c1IsFinished \<and> c2IsFinished then False
         else if c1IsFinished \<and> c2IsFinished
         then (case (CalculateTotalTime c1, CalculateTotalTime c2) of
                 ((t1, ok1), (t2, ok2)) \<Rightarrow>
                   if ok1 \<and> ok2 then (if t1 \<noteq> t2 then t1 < t2 else ID c1 < ID c2)
                   else if ok1 \<and> \<not> ok2 then True
                   else if \<not> ok1 \<and> ok2 then False
                   else ID c1 < ID c2)
         else let rank1 = statusRank (Status c1); rank2 = statusRank (Status c2)
              in if rank1 \<noteq> rank2 then rank1 < rank2 else ID c1 < ID c2)"

text \<open>
  \<^verbatim>\<open>sort.SliceStable\<close> is a stable sort: an element moves in front of another only if it
  is less. Insertion from the right is the stable sort written out.
\<close>

fun insertStable :: "('a \<Rightarrow> 'a \<Rightarrow> bool) \<Rightarrow> 'a \<Rightarrow> 'a list \<Rightarrow> 'a list" where
  "insertStable lt x [] = [x]"
| "insertStable lt x (y # ys) =
     (if lt y x then y # insertStable lt x ys else x # y # ys)"

definition SliceStable :: "('a \<Rightarrow> 'a \<Rightarrow> bool) \<Rightarrow> 'a list \<Rightarrow> 'a list" where
  "SliceStable lt xs = foldr (insertStable lt) xs []"

text \<open>
  \<^verbatim>\<open>GetSortedCompetitors\<close> copies the pointers of the map into a slice and sorts it;
  \<open>keys\<close> is the order in which the loop over the map visits it.
\<close>

definition GetSortedCompetitors :: "Simulator \<Rightarrow> int list \<Rightarrow> Competitor list" where
  "GetSortedCompetitors simulator keys =
     (let competitorsList = List.map_filter (Competitors simulator) keys
      in SliceStable sortLess competitorsList)"

section \<open>The report\<close>

definition lapEntry :: "LapDetail list \<Rightarrow> nat \<Rightarrow> string" where
  "lapEntry lapDetails i =
     (if i < length lapDetails \<and> Duration (lapDetails ! i) > 0
      then (let lapTimeStr = FormatDuration (Duration (lapDetails ! i));
                lapSpeedStr = Sprintf_f3 (Speed (lapDetails ! i))
            in ''{'' @ lapTimeStr @ '', '' @ lapSpeedStr @ ''}'')
      else ''{,}'')"

definition totalExpectedLapEntries :: "LapDetail list \<Rightarrow> CompetitorStatus \<Rightarrow> int \<Rightarrow> int" where
  "totalExpectedLapEntries lapDetails status currentLap =
     (let numLapsCompleted = int (length lapDetails) in
      if status = StatusNotStarted then 0
      else if status \<noteq> StatusFinished \<and> currentLap > numLapsCompleted then currentLap
      else numLapsCompleted)"

definition lapParts :: "LapDetail list \<Rightarrow> CompetitorStatus \<Rightarrow> int \<Rightarrow> string list" where
  "lapParts lapDetails status currentLap =
     map (lapEntry lapDetails)
       [0 ..< nat (totalExpectedLapEntries lapDetails status currentLap)]"

definition formatLapDetails :: "LapDetail list \<Rightarrow> CompetitorStatus \<Rightarrow> int \<Rightarrow> string" where
  "formatLapDetails lapDetails status currentLap =
     ''['' @ strings_Join (lapParts lapDetails status currentLap) '', '' @ '']''"

definition formatPenaltyDetails :: "PenaltyDetail \<Rightarrow> bool \<Rightarrow> string" where
  "formatPenaltyDetails penalty hadPenalties =
     (if \<not> hadPenalties then ''{,}''
      else if TotalDuration penalty \<le> 0
      then ''{'' @ FormatDuration 0 @ '', '' @ Sprintf_f3 0 @ ''}''
      else let penaltyTimeStr = FormatDuration (TotalDuration penalty);
               penaltySpeedStr = Sprintf_f3 (AverageSpeed penalty)
           in ''{'' @ penaltyTimeStr @ '', '' @ penaltySpeedStr @ ''}'')"

definition formatCompetitorResult :: "Competitor \<Rightarrow> string" where
  "formatCompetitorResult competitor =
     (let finalStatus = FinalStatusString competitor;
          lapDetailsStr = formatLapDetails (LapDetails competitor) (Status competitor)
                            (CurrentLap competitor);
          penaltyDetailsStr = formatPenaltyDetails (PenaltyDetails competitor)
                                (TotalPenaltyLaps competitor > 0);
          shootingStr = Sprintf_d (TotalHits competitor) @ ''/''
                        @ Sprintf_d (TotalShots competitor)
      in finalStatus @ '' '' @ Sprintf_d (ID competitor) @ '' '' @ lapDetailsStr @ '' ''
         @ penaltyDetailsStr @ '' '' @ shootingStr)"

definition GenerateReport :: "Competitor list \<Rightarrow> string list" where
  "GenerateReport competitors = map formatCompetitorResult competitors"

section \<open>Notions used in the properties\<close>

subsection \<open>Terminal statuses\<close>

definition terminal :: "CompetitorStatus \<Rightarrow> bool" where
  "terminal status =
     (status = StatusFinished \<or> status = StatusNotFinished
      \<or> status = StatusNotStarted \<or> status = StatusDisqualified)"

subsection \<open>Sample runs\<close>

text \<open>
  The configuration of the sample race, as \<^verbatim>\<open>LoadConfiguration\<close> returns it, and runs of
  the simulator over the lines of an event file. The properties below are instantiated
  on the states that these runs reach; each state is written out and shown to be the
  one the run ends in.
\<close>

definition example_config :: Config where
  "example_config =
     \<lparr>Laps = 2, LapLen = 3500, PenaltyLen = 150, FiringLines = 1,
      Start = ''10:00:00.000'', StartDelta = ''00:00:30.000'',
      ParsedStart = - 31586400000000000, ParsedStartDelta = 30000000000\<rparr>"

definition run_lines :: "string list \<Rightarrow> Simulator" where
  "run_lines ls = fst (LoadEvents_loop (NewSimulator example_config) 0 0 ls)"

definition snapshot :: "Simulator \<Rightarrow> int \<Rightarrow> Competitor option \<times> Config" where
  "snapshot simulator k = (Competitors simulator k, Config simulator)"

definition ready_lines :: "string list" where
  "ready_lines =
     [''[09:59:00.000] 1 1'', ''[09:59:01.000] 2 1 10:00:00.000'', ''[09:59:59.000] 3 1'']"

definition started_lines :: "string list" where
  "started_lines = ready_lines @ [''[10:00:00.000] 4 1'']"

definition shooting_lines :: "string list" where
  "shooting_lines = started_lines @ [''[10:05:00.000] 5 1 1'', ''[10:05:10.000] 6 1 1'']"

definition shot_lines :: "string list" where
  "shot_lines = shooting_lines @ [''[10:05:30.000] 7 1'']"

definition finished_lines :: "string list" where
  "finished_lines =
     shot_lines @ [''[10:06:00.000] 8 1'', ''[10:06:20.000] 9 1'', ''[10:10:00.000] 10 1'',
                   ''[10:20:00.000] 10 1'']"

definition retired_lines :: "string list" where
  "retired_lines = ready_lines @ [''[09:59:59.500] 11 1 Fell'']"

definition ready_competitor :: Competitor where
  "ready_competitor =
     \<lparr>ID = 1, Status = StatusReadyToStart, ScheduledStartTime = - 31586400000000000,
      ActualStartTime = 0, FinishTime = 0, LastEventTime = - 31586401000000000,
      CurrentLap = 0, CurrentLapStartTime = 0, LapDetails = [], LastFiringRangeEntered = 0,
      TotalFiringRangesCompleted = 0, HitsThisRange = 0, TotalHits = 0, TotalShots = 0,
      MissesToPenalize = 0, PenaltyStartTime = 0, TotalPenaltyTime = 0,
      TotalPenaltyLaps = 0,
      PenaltyDetails = \<lparr>TotalDuration = 0, AverageSpeed = 0\<rparr>,
      DisqualificationReason = []\<rparr>"

definition started_competitor :: Competitor where
  "started_competitor =
     \<lparr>ID = 1, Status = StatusStarted, ScheduledStartTime = - 31586400000000000,
      ActualStartTime = - 31586400000000000, FinishTime = 0,
      LastEventTime = - 31586400000000000, CurrentLap = 1,
      CurrentLapStartTime = - 31586400000000000, LapDetails = [],
      LastFiringRangeEntered = 0, TotalFiringRangesCompleted = 0, HitsThisRange = 0,
      TotalHits = 0, TotalShots = 0, MissesToPenalize = 0, PenaltyStartTime = 0,
      TotalPenaltyTime = 0, TotalPenaltyLaps = 0,
      PenaltyDetails = \<lparr>TotalDuration = 0, AverageSpeed = 0\<rparr>,
      DisqualificationReason = []\<rparr>"

definition shooting_competitor :: Competitor where
  "shooting_competitor =
     \<lparr>ID = 1, Status = StatusFiring, ScheduledStartTime = - 31586400000000000,
      ActualStartTime = - 31586400000000000, FinishTime = 0,
      LastEventTime = - 31586090000000000, CurrentLap = 1,
      CurrentLapStartTime = - 31586400000000000, LapDetails = [],
      LastFiringRangeEntered = 1, TotalFiringRangesCompleted = 0, HitsThisRange = 1,
      TotalHits = 1, TotalShots = 0, MissesToPenalize = 0, PenaltyStartTime = 0,
      TotalPenaltyTime = 0, TotalPenaltyLaps = 0,
      PenaltyDetails = \<lparr>TotalDuration = 0, AverageSpeed = 0\<rparr>,
      DisqualificationReason = []\<rparr>"

definition shot_competitor :: Competitor where
  "shot_competitor =
     \<lparr>ID = 1, Status = StatusFiring, ScheduledStartTime = - 31586400000000000,
      ActualStartTime = - 31586400000000000, FinishTime = 0,
      LastEventTime = - 31586070000000000, CurrentLap = 1,
      CurrentLapStartTime = - 31586400000000000, LapDetails = [],
      LastFiringRangeEntered = 0, TotalFiringRangesCompleted = 1, HitsThisRange = 0,
      TotalHits = 1, TotalShots = 5, MissesToPenalize = 4, PenaltyStartTime = 0,
      TotalPenaltyTime = 0, TotalPenaltyLaps = 0,
      PenaltyDetails = \<lparr>TotalDuration = 0, AverageSpeed = 0\<rparr>,
      DisqualificationReason = []\<rparr>"

definition finished_competitor :: Competitor where
  "finished_competitor =
     \<lparr>ID = 1, Status = StatusFinished, ScheduledStartTime = - 31586400000000000,
      ActualStartTime = - 31586400000000000, FinishTime = - 31585200000000000,
      LastEventTime = - 31585200000000000, CurrentLap = 2,
      CurrentLapStartTime = - 31585800000000000,
      LapDetails = [\<lparr>Duration = 600000000000, Speed = float64 (35 / 6)\<rparr>,
                    \<lparr>Duration = 600000000000, Speed = float64 (35 / 6)\<rparr>],
      LastFiringRangeEntered = 0, TotalFiringRangesCompleted = 1, HitsThisRange = 0,
      TotalHits = 1, TotalShots = 5, MissesToPenalize = 0, PenaltyStartTime = 0,
      TotalPenaltyTime = 20000000000, TotalPenaltyLaps = 4,
      PenaltyDetails = \<lparr>TotalDuration = 20000000000, AverageSpeed = 30\<rparr>,
      DisqualificationReason = []\<rparr>"

definition retired_competitor :: Competitor where
  "retired_competitor =
     \<lparr>ID = 1, Status = StatusNotFinished, ScheduledStartTime = - 31586400000000000,
      ActualStartTime = 0, FinishTime = - 31586400500000000,
      LastEventTime = - 31586400500000000, CurrentLap = 0, CurrentLapStartTime = 0,
      LapDetails = [], LastFiringRangeEntered = 0, TotalFiringRangesCompleted = 0,
      HitsThisRange = 0, TotalHits = 0, TotalShots = 0, MissesToPenalize = 0,
      PenaltyStartTime = 0, TotalPenaltyTime = 0, TotalPenaltyLaps = 0,
      PenaltyDetails = \<lparr>TotalDuration = 0, AverageSpeed = 0\<rparr>,
      DisqualificationReason = ''Fell''\<rparr>"

definition late_start_event :: Event where
  "late_start_event =
     \<lparr>Timestamp = - 31586369000000000, EventID = 4, CompetitorID = 1,
      ExtraParameters = [], RawLine = ''[10:00:31.000] 4 1'', IsIncoming = True\<rparr>"

definition finished_kind_event :: Event where
  "finished_kind_event =
     \<lparr>Timestamp = - 31586400000000000, EventID = 33, CompetitorID = 1,
      ExtraParameters = [], RawLine = ''[10:00:00.000] 33 1'', IsIncoming = False\<rparr>"

definition unknown_kind_event :: Event where
  "unknown_kind_event =
     \<lparr>Timestamp = - 31586400000000000, EventID = 12, CompetitorID = 1,
      ExtraParameters = [], RawLine = ''[10:00:00.000] 12 1'', IsIncoming = False\<rparr>"

definition register_again_event :: Event where
  "register_again_event =
     \<lparr>Timestamp = - 31586340000000000, EventID = 1, CompetitorID = 1,
      ExtraParameters = [], RawLine = ''[10:01:00.000] 1 1'', IsIncoming = True\<rparr>"

definition second_range_event :: Event where
  "second_range_event =
     \<lparr>Timestamp = - 31585980000000000, EventID = 5, CompetitorID = 1,
      ExtraParameters = [''2''], RawLine = ''[10:07:00.000] 5 1 2'', IsIncoming = True\<rparr>"

definition range_after_finish_event :: Event where
  "range_after_finish_event =
     \<lparr>Timestamp = - 31585140000000000, EventID = 5, CompetitorID = 1,
      ExtraParameters = [''2''], RawLine = ''[10:21:00.000] 5 1 2'', IsIncoming = True\<rparr>"

definition leave_range_event :: Event where
  "leave_range_event =
     \<lparr>Timestamp = - 31586070000000000, EventID = 7, CompetitorID = 1,
      ExtraParameters = [], RawLine = ''[10:05:30.000] 7 1'', IsIncoming = True\<rparr>"

definition retire_again_event :: Event where
  "retire_again_event =
     \<lparr>Timestamp = - 31584600000000000, EventID = 11, CompetitorID = 1,
      ExtraParameters = [''Lost''], RawLine = ''[10:30:00.000] 11 1 Lost'', IsIncoming = True\<rparr>"

definition race_lines :: "string list" where
  "race_lines =
     [''[09:59:00.000] 1 1'', ''[09:59:00.000] 1 2'', ''[09:59:00.000] 1 3'',
      ''[09:59:00.000] 1 4'',
      ''[09:59:01.000] 2 1 10:00:00.000'', ''[09:59:01.000] 2 2 10:00:30.000'',
      ''[09:59:01.000] 2 3 10:01:00.000'', ''[09:59:01.000] 2 4 10:01:30.000'',
      ''[10:00:00.000] 4 1'', ''[10:00:30.000] 4 2'', ''[10:01:30.000] 4 4'',
      ''[10:05:00.000] 11 4 Broken ski'',
      ''[10:10:00.000] 10 1'', ''[10:10:30.000] 10 2'',
      ''[10:20:30.000] 10 2'', ''[10:21:00.000] 10 1'']"

definition race_result :: Simulator where
  "race_result =
     fst (LoadEventsFromFile (NewSimulator example_config) race_lines [1, 2, 3, 4])"

definition example_raw_config :: Config where
  "example_raw_config =
     \<lparr>Laps = 2, LapLen = 3500, PenaltyLen = 150, FiringLines = 1,
      Start = ''10:00:00.000'', StartDelta = ''00:00:30.000'',
      ParsedStart = 0, ParsedStartDelta = 0\<rparr>"

definition zero_penalty_config :: Config where
  "zero_penalty_config = example_raw_config\<lparr>PenaltyLen := 0\<rparr>"

subsection \<open>Competitors of a run\<close>

text \<open>
  The engine never counts firing lines or laps below zero, and a competitor whose
  current lap is at least 1, or who has finished, has an actual start time: the lap
  becomes 1 only where the start time is set, and finishing goes through the EndLap
  case, which panics on lap 0. The start time is the time stamp of an event, which is
  never the zero time when it comes from \<^verbatim>\<open>ParseEventFromString\<close>. Every competitor
  is kept in the map under its own number.
\<close>

definition wellFormed :: "Competitor \<Rightarrow> bool" where
  "wellFormed c =
     (0 \<le> TotalFiringRangesCompleted c \<and> 0 \<le> CurrentLap c
      \<and> ((Status c = StatusFinished \<or> 1 \<le> CurrentLap c) \<longrightarrow> \<not> IsZero (ActualStartTime c)))"

definition allWellFormed :: "Simulator \<Rightarrow> bool" where
  "allWellFormed simulator =
     (\<forall>k c. Competitors simulator k = Some c \<longrightarrow> wellFormed c \<and> ID c = k)"

subsection \<open>The ranking\<close>

text \<open>
  The order the claim describes, in its words: the total time of a finisher is the time
  from the actual start to the finish plus the delay of the actual start after the
  scheduled one, if any; a finisher comes before every competitor who has not finished;
  two finishers are ordered by total time and then by number; two others by the rank of
  their status and then by number.
\<close>

definition totalTime :: "Competitor \<Rightarrow> Duration" where
  "totalTime c =
     Time_Sub (FinishTime c) (ActualStartTime c)
     + max 0 (Time_Sub (ActualStartTime c) (ScheduledStartTime c))"

definition rankedBefore :: "Competitor \<Rightarrow> Competitor \<Rightarrow> bool" where
  "rankedBefore a b =
     (if Status a = StatusFinished
      then (if Status b = StatusFinished
            then totalTime a < totalTime b \<or> (totalTime a = totalTime b \<and> ID a \<le> ID b)
            else True)
      else (Status b \<noteq> StatusFinished
            \<and> (statusRank (Status a) < statusRank (Status b)
                 \<or> (statusRank (Status a) = statusRank (Status b) \<and> ID a \<le> ID b))))"

definition finishersHaveStarted :: "Simulator \<Rightarrow> bool" where
  "finishersHaveStarted simulator =
     (\<forall>k c. Competitors simulator k = Some c \<longrightarrow> Status c = StatusFinished
        \<longrightarrow> \<not> IsZero (ActualStartTime c))"

text \<open>
  The comparison of \<^verbatim>\<open>GetSortedCompetitors\<close> is the lexicographic order of a key, so that
  the stable insertion is the library's sort by that key.
\<close>

definition sortKey :: "Competitor \<Rightarrow> int \<times> int \<times> int \<times> int" where
  "sortKey c =
     (if Status c = StatusFinished
      then (if snd (CalculateTotalTime c) then (0, 0, fst (CalculateTotalTime c), ID c)
            else (0, 1, 0, ID c))
      else (1, statusRank (Status c), 0, ID c))"

subsection \<open>Decimal text\<close>

text \<open>
  The number that a string of digits denotes after the digits read so far, a number
  padded with zeros to a width, and the four fields of the text of a duration.
\<close>

definition digitsValue :: "int \<Rightarrow> string \<Rightarrow> int" where
  "digitsValue x s = foldl (\<lambda>a c. a * 10 + digitVal c) x s"

definition padded :: "nat \<Rightarrow> nat \<Rightarrow> string" where
  "padded w n = zero_pad w (show_nat n)"

definition hoursOf :: "Duration \<Rightarrow> nat" where "hoursOf d = nat (d div Hour)"
definition minutesOf :: "Duration \<Rightarrow> nat" where "minutesOf d = nat (d mod Hour div Minute)"
definition secondsOf :: "Duration \<Rightarrow> nat" where "secondsOf d = nat (d mod Minute div Second)"
definition millisOf :: "Duration \<Rightarrow> nat" where
  "millisOf d = nat (d mod Second div Millisecond)"

section \<open>The sample runs reach the sample states\<close>

lemma ready_run: "snapshot (run_lines ready_lines) 1 = (Some ready_competitor, example_config)"
  by code_simp

lemma started_run:
  "snapshot (run_lines started_lines) 1 = (Some started_competitor, example_config)"
  by code_simp

lemma shooting_run:
  "snapshot (run_lines shooting_lines) 1 = (Some shooting_competitor, example_config)"
  by code_simp

lemma shot_run: "snapshot (run_lines shot_lines) 1 = (Some shot_competitor, example_config)"
  by code_simp

lemma finished_run:
  "snapshot (run_lines finished_lines) 1 = (Some finished_competitor, example_config)"
  by code_simp

lemma retired_run:
  "snapshot (run_lines retired_lines) 1 = (Some retired_competitor, example_config)"
  by code_simp

lemma parsed_events:
  "map ParseEventFromString
     [''[10:00:31.000] 4 1'', ''[10:00:00.000] 33 1'', ''[10:00:00.000] 12 1'',
      ''[10:01:00.000] 1 1'', ''[10:07:00.000] 5 1 2'', ''[10:21:00.000] 5 1 2'',
      ''[10:05:30.000] 7 1'', ''[10:30:00.000] 11 1 Lost'']
   = [Inr late_start_event, Inr finished_kind_event, Inr unknown_kind_event,
      Inr register_again_event, Inr second_range_event, Inr range_after_finish_event,
      Inr leave_range_event, Inr retire_again_event]"
  by code_simp

lemmas sample_runs =
  ready_run [unfolded snapshot_def, simplified]
  started_run [unfolded snapshot_def, simplified]
  shooting_run [unfolded snapshot_def, simplified]
  shot_run [unfolded snapshot_def, simplified]
  finished_run [unfolded snapshot_def, simplified]
  retired_run [unfolded snapshot_def, simplified]

section \<open>The library functions on sample values\<close>

text \<open>
  A speed whose quotient, 0.0875, is no \<^verbatim>\<open>float64\<close>: the nearest one lies below it and is
  printed as 0.087. A fraction of a minute whose scaled value the library cuts to the
  nanosecond below. A line whose fields are separated by a no-break space, U+00A0, and
  a byte \<^verbatim>\<open>0xC2\<close> that begins no white space and stays in its field.
\<close>

lemma speed_of_long_lap: "Sprintf_f3 (CalculateSpeed 3500 40000000000000) = ''0.087''"
  by code_simp

lemma fraction_of_minute:
  "ParseDurationFromString ''0:0.37367528895000:0'' = Inr 22420517336"
  by code_simp

lemma fields_of_wide_space:
  "strings_Fields [CHR ''a'', CHR 0xC2, CHR 0xA0, CHR ''b'', CHR 0xC2, CHR 0xA1, CHR '' '', CHR ''c'']
   = [''a'', [CHR ''b'', CHR 0xC2, CHR 0xA1], ''c'']"
  by code_simp

section \<open>Properties of the engine\<close>

subsection \<open>How \<^verbatim>\<open>ProcessEvent\<close> reaches the switch\<close>

lemma ProcessEvent_registered:
  assumes "Competitors simulator (CompetitorID event) = Some competitor"
    and "EventID event \<noteq> Register"
  shows "ProcessEvent simulator event =
     (case ProcessEvent_switch
             ((if IsIncoming event
               then \<lambda>s. s\<lparr>OutputLog := OutputLog s @ [Event_String event]\<rparr> else (\<lambda>s. s))
                (simulator\<lparr>CurrentTime := Timestamp event,
                            Events := Events simulator @ [event]\<rparr>))
             (if EventID event \<noteq> SetStartTime
              then competitor\<lparr>LastEventTime := Timestamp event\<rparr> else competitor)
             event of
        (s, c, err) \<Rightarrow> (s\<lparr>Competitors := (Competitors s)(CompetitorID event \<mapsto> c)\<rparr>, err))"
  using assms by (simp add: ProcessEvent_def Let_def)

lemma DisqualifyCompetitor_terminal:
  "terminal (Status competitor) \<Longrightarrow>
   DisqualifyCompetitor simulator competitor t reason = (simulator, competitor)"
  by (auto simp: DisqualifyCompetitor_def terminal_def)

lemma FinishCompetitor_terminal:
  "terminal (Status competitor) \<Longrightarrow>
   FinishCompetitor simulator competitor t = (simulator, competitor)"
  by (auto simp: FinishCompetitor_def terminal_def)

lemma DisqualifyCompetitor_live:
  "\<not> terminal (Status competitor) \<Longrightarrow>
   snd (DisqualifyCompetitor simulator competitor t reason) =
     competitor\<lparr>FinishTime := t,
       Status := (if reason = ''NotStarted'' then StatusNotStarted else StatusDisqualified),
       DisqualificationReason := reason\<rparr>
   \<and> Competitors (fst (DisqualifyCompetitor simulator competitor t reason))
       = Competitors simulator"
  by (auto simp: DisqualifyCompetitor_def terminal_def Let_def)

subsection \<open>A late start\<close>

text \<open>
  Claim C1, as amended. A competitor has a scheduled start time, and a Started event
  arrives with a time stamp after the scheduled time plus the configured start delta.
  Then \<^verbatim>\<open>ProcessEvent\<close> returns no error. A competitor who is not yet in a terminal
  status gets status NotStarted, the reason \<^verbatim>\<open>NotStarted\<close> and the time of the event as
  finish time; every other field but the time of the last event stays as it was, so the
  actual start time and the current lap are unset and 0 if they were before, and the
  status never becomes Started. A competitor already in a terminal status (Finished,
  NotFinished, NotStarted, Disqualified) only has the time of the last event updated.
\<close>

theorem late_start_disqualifies:
  assumes reg: "Competitors simulator (CompetitorID event) = Some competitor"
    and ev: "EventID event = Started"
    and sched: "\<not> IsZero (ScheduledStartTime competitor)"
    and late: "Time_After (Timestamp event)
                 (Time_Add (ScheduledStartTime competitor)
                    (ParsedStartDelta (Config simulator)))"
  shows "snd (ProcessEvent simulator event) = None \<and>
         Competitors (fst (ProcessEvent simulator event)) (CompetitorID event) =
           Some (if terminal (Status competitor)
                 then competitor\<lparr>LastEventTime := Timestamp event\<rparr>
                 else competitor\<lparr>LastEventTime := Timestamp event,
                        FinishTime := Timestamp event, Status := StatusNotStarted,
                        DisqualificationReason := ''NotStarted''\<rparr>)"
proof (cases "terminal (Status competitor)")
  case True
  with assms show ?thesis
    by (simp add: ProcessEvent_registered ProcessEvent_switch_def case_Started_def
        EventID_defs DisqualifyCompetitor_terminal)
next
  case False
  with assms show ?thesis
    by (simp add: ProcessEvent_registered ProcessEvent_switch_def case_Started_def
        EventID_defs DisqualifyCompetitor_live case_prod_beta)
qed

text \<open>
  The instance: competitor 1 is on the start line with a start scheduled for 10:00:00
  and a delta of 30 seconds, and starts at 10:00:31.
\<close>

theorem late_start_disqualifies_witness:
  "snd (ProcessEvent (run_lines ready_lines) late_start_event) = None \<and>
   Competitors (fst (ProcessEvent (run_lines ready_lines) late_start_event)) 1 =
     Some (ready_competitor\<lparr>LastEventTime := Timestamp late_start_event,
             FinishTime := Timestamp late_start_event, Status := StatusNotStarted,
             DisqualificationReason := ''NotStarted''\<rparr>) \<and>
   ActualStartTime ready_competitor = 0 \<and> CurrentLap ready_competitor = 0"
proof -
  have reg: "Competitors (run_lines ready_lines) (CompetitorID late_start_event)
             = Some ready_competitor"
    by (simp add: sample_runs late_start_event_def)
  have ev: "EventID late_start_event = Started"
    by (simp add: late_start_event_def Started_def)
  have sched: "\<not> IsZero (ScheduledStartTime ready_competitor)"
    by (simp add: ready_competitor_def IsZero_def)
  have late: "Time_After (Timestamp late_start_event)
       (Time_Add (ScheduledStartTime ready_competitor)
          (ParsedStartDelta (Config (run_lines ready_lines))))"
    by (simp add: sample_runs late_start_event_def ready_competitor_def example_config_def
        Time_After_def Time_Add_def)
  have live: "\<not> terminal (Status ready_competitor)"
    by (simp add: ready_competitor_def terminal_def)
  have k: "CompetitorID late_start_event = 1" by (simp add: late_start_event_def)
  from late_start_disqualifies [OF reg ev sched late] live k show ?thesis
    by (simp add: ready_competitor_def)
qed

text \<open>
  The claim as first stated fails on two runs. Competitor 1 retires before the start
  (status NotFinished), and the late Started event leaves status, finish time and reason
  as they are. Competitor 1 starts on time and a second Started event arrives late: the
  status becomes NotStarted, but the actual start time stays set and the current lap
  stays 1.
\<close>

theorem late_start_counterexample:
  "Competitors (run_lines retired_lines) 1 = Some retired_competitor \<and>
   \<not> IsZero (ScheduledStartTime retired_competitor) \<and>
   EventID late_start_event = Started \<and>
   Time_After (Timestamp late_start_event)
     (Time_Add (ScheduledStartTime retired_competitor)
        (ParsedStartDelta (Config (run_lines retired_lines)))) \<and>
   Status retired_competitor = StatusNotFinished \<and>
   Competitors (fst (ProcessEvent (run_lines retired_lines) late_start_event)) 1 =
     Some (retired_competitor\<lparr>LastEventTime := Timestamp late_start_event\<rparr>) \<and>
   Competitors (run_lines started_lines) 1 = Some started_competitor \<and>
   \<not> IsZero (ScheduledStartTime started_competitor) \<and>
   Time_After (Timestamp late_start_event)
     (Time_Add (ScheduledStartTime started_competitor)
        (ParsedStartDelta (Config (run_lines started_lines)))) \<and>
   Competitors (fst (ProcessEvent (run_lines started_lines) late_start_event)) 1 =
     Some (started_competitor\<lparr>LastEventTime := Timestamp late_start_event,
             FinishTime := Timestamp late_start_event, Status := StatusNotStarted,
             DisqualificationReason := ''NotStarted''\<rparr>) \<and>
   \<not> IsZero (ActualStartTime started_competitor) \<and> CurrentLap started_competitor = 1"
proof -
  have ev: "EventID late_start_event = Started" "EventID late_start_event \<noteq> Register"
    "CompetitorID late_start_event = 1"
    by (simp_all add: late_start_event_def EventID_defs)
  have r1: "Competitors (run_lines retired_lines) (CompetitorID late_start_event)
            = Some retired_competitor"
    and r2: "Competitors (run_lines started_lines) (CompetitorID late_start_event)
            = Some started_competitor"
    by (simp_all add: sample_runs ev)
  have t: "terminal (Status retired_competitor)" "\<not> terminal (Status started_competitor)"
    by (simp_all add: retired_competitor_def started_competitor_def terminal_def)
  have l1: "\<not> IsZero (ScheduledStartTime retired_competitor) \<and>
      Time_After (Timestamp late_start_event)
       (Time_Add (ScheduledStartTime retired_competitor)
          (ParsedStartDelta (Config (run_lines retired_lines))))"
    and l2: "\<not> IsZero (ScheduledStartTime started_competitor) \<and>
      Time_After (Timestamp late_start_event)
       (Time_Add (ScheduledStartTime started_competitor)
          (ParsedStartDelta (Config (run_lines started_lines))))"
    by (simp_all add: sample_runs late_start_event_def retired_competitor_def
        started_competitor_def example_config_def Time_After_def Time_Add_def IsZero_def)
  have p1: "Competitors (fst (ProcessEvent (run_lines retired_lines) late_start_event)) 1 =
     Some (retired_competitor\<lparr>LastEventTime := Timestamp late_start_event\<rparr>)"
    using l1 t(1) ev
    by (simp add: ProcessEvent_registered [OF r1 ev(2)] ProcessEvent_switch_def
        case_Started_def EventID_defs DisqualifyCompetitor_terminal)
  have p2: "Competitors (fst (ProcessEvent (run_lines started_lines) late_start_event)) 1 =
     Some (started_competitor\<lparr>LastEventTime := Timestamp late_start_event,
             FinishTime := Timestamp late_start_event, Status := StatusNotStarted,
             DisqualificationReason := ''NotStarted''\<rparr>)"
    using l2 t(2) ev
    by (simp add: ProcessEvent_registered [OF r2 ev(2)] ProcessEvent_switch_def
        case_Started_def EventID_defs DisqualifyCompetitor_live case_prod_beta)
  have vals: "Status retired_competitor = StatusNotFinished"
    "\<not> IsZero (ActualStartTime started_competitor)" "CurrentLap started_competitor = 1"
    by (simp_all add: retired_competitor_def started_competitor_def IsZero_def)
  from r1 r2 ev l1 l2 p1 p2 vals show ?thesis by simp
qed

section \<open>What holds of every competitor of a run\<close>

lemma wellFormed_NewCompetitor: "wellFormed (NewCompetitor k t)"
  by (simp add: wellFormed_def NewCompetitor_def)

lemma wellFormed_touch: "wellFormed c \<Longrightarrow> wellFormed (c\<lparr>LastEventTime := t\<rparr>)"
  by (simp add: wellFormed_def)

lemma wellFormed_Disqualify:
  "wellFormed c \<Longrightarrow> wellFormed (snd (DisqualifyCompetitor simulator c t reason))"
  by (auto simp: wellFormed_def DisqualifyCompetitor_def Let_def)

lemma wellFormed_Finish:
  "wellFormed c \<Longrightarrow> 1 \<le> CurrentLap c \<Longrightarrow>
   wellFormed (snd (FinishCompetitor simulator c t))"
  by (auto simp: wellFormed_def FinishCompetitor_def penaltySummary_def Let_def)

lemma wellFormed_SetStartTime:
  "wellFormed c \<Longrightarrow> wellFormed (fst (snd (case_SetStartTime simulator c event)))"
  by (auto simp: wellFormed_def case_SetStartTime_def split: sum.splits)

lemma wellFormed_OnStartLine:
  "wellFormed c \<Longrightarrow> wellFormed (fst (snd (case_OnStartLine simulator c event)))"
  by (auto simp: wellFormed_def case_OnStartLine_def)

lemma wellFormed_Started:
  "wellFormed c \<Longrightarrow> Timestamp event \<noteq> 0 \<Longrightarrow>
   wellFormed (fst (snd (case_Started simulator c event)))"
  using wellFormed_Disqualify [of c simulator "Timestamp event" "''NotStarted''"]
  by (auto simp: case_Started_def case_prod_beta) (simp_all add: wellFormed_def IsZero_def)

lemma wellFormed_EnterFiringRange:
  "wellFormed c \<Longrightarrow> wellFormed (fst (snd (case_EnterFiringRange simulator c event)))"
  using wellFormed_Disqualify [of c simulator "Timestamp event" "''Extra firing line''"]
  by (auto simp: case_EnterFiringRange_def case_prod_beta Let_def wellFormed_def
           split: option.splits)

lemma wellFormed_HitTarget:
  "wellFormed c \<Longrightarrow> wellFormed (fst (snd (case_HitTarget simulator c event)))"
  by (auto simp: wellFormed_def case_HitTarget_def)

lemma wellFormed_LeaveFiringRange:
  "wellFormed c \<Longrightarrow> wellFormed (fst (snd (case_LeaveFiringRange simulator c event)))"
  by (auto simp: wellFormed_def case_LeaveFiringRange_def Let_def)

lemma wellFormed_EnterPenaltyLaps:
  "wellFormed c \<Longrightarrow> wellFormed (fst (snd (case_EnterPenaltyLaps simulator c event)))"
  by (auto simp: wellFormed_def case_EnterPenaltyLaps_def)

lemma wellFormed_LeavePenaltyLaps:
  "wellFormed c \<Longrightarrow> wellFormed (fst (snd (case_LeavePenaltyLaps simulator c event)))"
  by (auto simp: wellFormed_def case_LeavePenaltyLaps_def Let_def)

lemma wellFormed_CannotContinue:
  "wellFormed c \<Longrightarrow> wellFormed (fst (snd (case_CannotContinue simulator c event)))"
  by (auto simp: wellFormed_def case_CannotContinue_def Let_def penaltySummary_def)

lemma wellFormed_EndLap:
  assumes "wellFormed c"
  shows "wellFormed (fst (snd (case_EndLap simulator c event)))"
proof (cases "CurrentLap c - 1 < 0")
  case True
  with assms show ?thesis
    by (auto simp: case_EndLap_def Let_def wellFormed_def)
next
  case False
  define c1 where "c1 =
    (if int (length (LapDetails c)) < CurrentLap c
     then c\<lparr>LapDetails := LapDetails c
            @ replicate (nat (CurrentLap c - int (length (LapDetails c))))
                \<lparr>Duration = 0, Speed = 0\<rparr>\<rparr>
     else c)"
  define c2 where "c2 =
    c1\<lparr>LapDetails := (LapDetails c1)
         [nat (CurrentLap c1 - 1) :=
            \<lparr>Duration = Time_Sub (Timestamp event) (CurrentLapStartTime c),
             Speed = CalculateSpeed (LapLen (Config simulator))
                       (Time_Sub (Timestamp event) (CurrentLapStartTime c))\<rparr>]\<rparr>"
  have wf2: "wellFormed c2" "1 \<le> CurrentLap c2"
    using assms False by (auto simp: c2_def c1_def wellFormed_def)
  have len: "\<not> CurrentLap c1 - 1 \<ge> int (length (LapDetails c1))"
    "CurrentLap c1 = CurrentLap c"
    by (auto simp: c1_def)
  have "fst (snd (case_EndLap simulator c event)) =
     (if CurrentLap c2 \<ge> Laps (Config simulator)
      then snd (FinishCompetitor simulator c2 (Timestamp event))
      else c2\<lparr>CurrentLap := CurrentLap c2 + 1, CurrentLapStartTime := Timestamp event\<rparr>)"
    using False len unfolding case_EndLap_def Let_def c1_def [symmetric]
    by (simp add: case_prod_beta c2_def c1_def)
  moreover have "wellFormed (snd (FinishCompetitor simulator c2 (Timestamp event)))"
    using wf2 by (rule wellFormed_Finish)
  moreover have
    "wellFormed (c2\<lparr>CurrentLap := CurrentLap c2 + 1, CurrentLapStartTime := Timestamp event\<rparr>)"
    using wf2 by (auto simp: wellFormed_def)
  ultimately show ?thesis by simp
qed

lemma wellFormed_switch:
  assumes "wellFormed c" and "Timestamp event \<noteq> 0"
  shows "wellFormed (fst (snd (ProcessEvent_switch simulator c event)))"
  using assms
  by (simp add: ProcessEvent_switch_def wellFormed_SetStartTime wellFormed_OnStartLine
      wellFormed_Started wellFormed_EnterFiringRange wellFormed_HitTarget
      wellFormed_LeaveFiringRange wellFormed_EnterPenaltyLaps wellFormed_LeavePenaltyLaps
      wellFormed_EndLap wellFormed_CannotContinue)

subsection \<open>The cases of the switch leave the map of competitors alone\<close>

lemma Competitors_Disqualify:
  "Competitors (fst (DisqualifyCompetitor simulator c t reason)) = Competitors simulator"
  by (simp add: DisqualifyCompetitor_def Let_def)

lemma Competitors_Finish:
  "Competitors (fst (FinishCompetitor simulator c t)) = Competitors simulator"
  by (simp add: FinishCompetitor_def Let_def)

lemma Competitors_case_SetStartTime:
  "Competitors (fst (case_SetStartTime simulator c event)) = Competitors simulator"
  by (simp add: case_SetStartTime_def split: sum.splits)

lemma Competitors_case_OnStartLine:
  "Competitors (fst (case_OnStartLine simulator c event)) = Competitors simulator"
  by (simp add: case_OnStartLine_def)

lemma Competitors_case_Started:
  "Competitors (fst (case_Started simulator c event)) = Competitors simulator"
  by (simp add: case_Started_def case_prod_beta Competitors_Disqualify)

lemma Competitors_case_EnterFiringRange:
  "Competitors (fst (case_EnterFiringRange simulator c event)) = Competitors simulator"
  by (simp add: case_EnterFiringRange_def case_prod_beta Competitors_Disqualify Let_def
      split: option.splits)

lemma Competitors_case_HitTarget:
  "Competitors (fst (case_HitTarget simulator c event)) = Competitors simulator"
  by (simp add: case_HitTarget_def)

lemma Competitors_case_LeaveFiringRange:
  "Competitors (fst (case_LeaveFiringRange simulator c event)) = Competitors simulator"
  by (simp add: case_LeaveFiringRange_def Let_def)

lemma Competitors_case_EnterPenaltyLaps:
  "Competitors (fst (case_EnterPenaltyLaps simulator c event)) = Competitors simulator"
  by (simp add: case_EnterPenaltyLaps_def)

lemma Competitors_case_LeavePenaltyLaps:
  "Competitors (fst (case_LeavePenaltyLaps simulator c event)) = Competitors simulator"
  by (simp add: case_LeavePenaltyLaps_def Let_def)

lemma Competitors_case_EndLap:
  "Competitors (fst (case_EndLap simulator c event)) = Competitors simulator"
  by (simp add: case_EndLap_def Let_def case_prod_beta Competitors_Finish)

lemma Competitors_case_CannotContinue:
  "Competitors (fst (case_CannotContinue simulator c event)) = Competitors simulator"
  by (simp add: case_CannotContinue_def Let_def)

lemma Competitors_switch:
  "Competitors (fst (ProcessEvent_switch simulator c event)) = Competitors simulator"
  by (simp add: ProcessEvent_switch_def Competitors_case_SetStartTime
      Competitors_case_OnStartLine Competitors_case_Started Competitors_case_EnterFiringRange
      Competitors_case_HitTarget Competitors_case_LeaveFiringRange
      Competitors_case_EnterPenaltyLaps Competitors_case_LeavePenaltyLaps
      Competitors_case_EndLap Competitors_case_CannotContinue)

subsection \<open>The cases of the switch leave the number of the competitor alone\<close>

lemma ID_Disqualify: "ID (snd (DisqualifyCompetitor simulator c t reason)) = ID c"
  by (simp add: DisqualifyCompetitor_def Let_def)

lemma ID_Finish: "ID (snd (FinishCompetitor simulator c t)) = ID c"
  by (simp add: FinishCompetitor_def penaltySummary_def Let_def)

lemma ID_case_SetStartTime: "ID (fst (snd (case_SetStartTime simulator c event))) = ID c"
  by (simp add: case_SetStartTime_def split: sum.splits)

lemma ID_case_OnStartLine: "ID (fst (snd (case_OnStartLine simulator c event))) = ID c"
  by (simp add: case_OnStartLine_def)

lemma ID_case_Started: "ID (fst (snd (case_Started simulator c event))) = ID c"
  by (simp add: case_Started_def case_prod_beta ID_Disqualify)

lemma ID_case_EnterFiringRange:
  "ID (fst (snd (case_EnterFiringRange simulator c event))) = ID c"
  by (simp add: case_EnterFiringRange_def case_prod_beta ID_Disqualify Let_def
      split: option.splits)

lemma ID_case_HitTarget: "ID (fst (snd (case_HitTarget simulator c event))) = ID c"
  by (simp add: case_HitTarget_def)

lemma ID_case_LeaveFiringRange:
  "ID (fst (snd (case_LeaveFiringRange simulator c event))) = ID c"
  by (simp add: case_LeaveFiringRange_def Let_def)

lemma ID_case_EnterPenaltyLaps:
  "ID (fst (snd (case_EnterPenaltyLaps simulator c event))) = ID c"
  by (simp add: case_EnterPenaltyLaps_def)

lemma ID_case_LeavePenaltyLaps:
  "ID (fst (snd (case_LeavePenaltyLaps simulator c event))) = ID c"
  by (simp add: case_LeavePenaltyLaps_def Let_def)

lemma ID_case_EndLap: "ID (fst (snd (case_EndLap simulator c event))) = ID c"
  by (simp add: case_EndLap_def Let_def case_prod_beta ID_Finish)

lemma ID_case_CannotContinue:
  "ID (fst (snd (case_CannotContinue simulator c event))) = ID c"
  by (simp add: case_CannotContinue_def penaltySummary_def Let_def)

lemma ID_switch: "ID (fst (snd (ProcessEvent_switch simulator c event))) = ID c"
  by (simp add: ProcessEvent_switch_def ID_case_SetStartTime ID_case_OnStartLine
      ID_case_Started ID_case_EnterFiringRange ID_case_HitTarget ID_case_LeaveFiringRange
      ID_case_EnterPenaltyLaps ID_case_LeavePenaltyLaps ID_case_EndLap
      ID_case_CannotContinue)

lemma ProcessEvent_registered_proj:
  assumes "Competitors simulator (CompetitorID event) = Some competitor"
    and "EventID event \<noteq> Register"
  shows "\<exists>s. Competitors s = Competitors simulator \<and> Config s = Config simulator \<and>
     Competitors (fst (ProcessEvent simulator event)) =
       (Competitors simulator)(CompetitorID event \<mapsto>
          fst (snd (ProcessEvent_switch s
             (if EventID event \<noteq> SetStartTime
              then competitor\<lparr>LastEventTime := Timestamp event\<rparr> else competitor) event)))"
proof -
  let ?s = "(if IsIncoming event
               then \<lambda>s. s\<lparr>OutputLog := OutputLog s @ [Event_String event]\<rparr> else (\<lambda>s. s))
                (simulator\<lparr>CurrentTime := Timestamp event,
                            Events := Events simulator @ [event]\<rparr>)"
  have "Competitors ?s = Competitors simulator \<and> Config ?s = Config simulator" by simp
  moreover have "Competitors (fst (ProcessEvent simulator event)) =
       (Competitors simulator)(CompetitorID event \<mapsto>
          fst (snd (ProcessEvent_switch ?s
             (if EventID event \<noteq> SetStartTime
              then competitor\<lparr>LastEventTime := Timestamp event\<rparr> else competitor) event)))"
    using assms Competitors_switch [of ?s]
    by (simp add: ProcessEvent_registered case_prod_beta del: fun_upd_apply)
  ultimately show ?thesis by blast
qed

subsection \<open>Every event keeps the competitors well formed\<close>

lemma allWellFormed_ProcessEvent:
  assumes inv: "allWellFormed simulator" and ts: "Timestamp event \<noteq> 0"
  shows "allWellFormed (fst (ProcessEvent simulator event))"
proof (cases "EventID event = Register")
  case True
  have "ID (NewCompetitor (CompetitorID event) (Timestamp event)) = CompetitorID event"
    by (simp add: NewCompetitor_def)
  with True show ?thesis
    using inv by (auto simp: ProcessEvent_def Let_def allWellFormed_def wellFormed_NewCompetitor
        split: option.splits if_splits)
next
  case False
  show ?thesis
  proof (cases "Competitors simulator (CompetitorID event)")
    case None
    with False inv show ?thesis
      by (auto simp: ProcessEvent_def Let_def allWellFormed_def)
  next
    case (Some competitor)
    from inv Some have wf: "wellFormed competitor" "ID competitor = CompetitorID event"
      by (auto simp: allWellFormed_def)
    from ProcessEvent_registered_proj [OF Some False] obtain s where
      s: "Competitors (fst (ProcessEvent simulator event)) =
       (Competitors simulator)(CompetitorID event \<mapsto>
          fst (snd (ProcessEvent_switch s
             (if EventID event \<noteq> SetStartTime
              then competitor\<lparr>LastEventTime := Timestamp event\<rparr> else competitor) event)))"
      by blast
    have "wellFormed (fst (snd (ProcessEvent_switch s
             (if EventID event \<noteq> SetStartTime
              then competitor\<lparr>LastEventTime := Timestamp event\<rparr> else competitor) event)))"
      using wf ts by (intro wellFormed_switch) (auto simp: wellFormed_touch)
    moreover have "ID (fst (snd (ProcessEvent_switch s
             (if EventID event \<noteq> SetStartTime
              then competitor\<lparr>LastEventTime := Timestamp event\<rparr> else competitor) event)))
          = CompetitorID event"
      using wf(2) by (simp add: ID_switch)
    ultimately show ?thesis
      using inv s by (auto simp: allWellFormed_def)
  qed
qed

lemma allWellFormed_NewSimulator: "allWellFormed (NewSimulator cfg)"
  by (simp add: allWellFormed_def NewSimulator_def)

lemma allWellFormed_CheckForNotStarted_step:
  assumes "allWellFormed simulator"
  shows "allWellFormed (CheckForNotStarted_step simulator k)"
proof (cases "Competitors simulator k")
  case None
  with assms show ?thesis by (simp add: CheckForNotStarted_step_def)
next
  case (Some c)
  with assms have "wellFormed c" "ID c = k" by (auto simp: allWellFormed_def)
  hence "wellFormed (snd (DisqualifyCompetitor simulator c
           (Time_Add (ScheduledStartTime c) (ParsedStartDelta (Config simulator)))
           ''NotStarted''))"
    "ID (snd (DisqualifyCompetitor simulator c
           (Time_Add (ScheduledStartTime c) (ParsedStartDelta (Config simulator)))
           ''NotStarted'')) = k"
    by (simp_all add: wellFormed_Disqualify ID_Disqualify)
  with assms Some show ?thesis
    by (auto simp: CheckForNotStarted_step_def Let_def case_prod_beta allWellFormed_def
        Competitors_Disqualify)
qed

lemma allWellFormed_CheckForNotStarted:
  "allWellFormed simulator \<Longrightarrow> allWellFormed (CheckForNotStarted simulator keys)"
  unfolding CheckForNotStarted_def
  by (induction keys arbitrary: simulator) (auto simp: allWellFormed_CheckForNotStarted_step)

subsection \<open>A parsed time is never the zero time\<close>

lemma digitVal_range: "isDigit c \<Longrightarrow> 0 \<le> digitVal c \<and> digitVal c \<le> 9"
  by (auto simp: isDigit_def digitVal_def)

lemma leadingInt_loop_bounds:
  "leadingInt_loop x s = Some (q, r) \<Longrightarrow> 0 \<le> x \<Longrightarrow> x \<le> q \<and> q < (x + 1) * 10 ^ length s"
proof (induction x s rule: leadingInt_loop.induct)
  case (1 x)
  then show ?case by simp
next
  case (2 x c cs)
  show ?case
  proof (cases "isDigit c")
    case False
    with 2 have "q = x" by simp
    moreover have "(1::int) \<le> 10 ^ length (c # cs)" by (rule one_le_power) simp
    hence "(x + 1) * 1 \<le> (x + 1) * 10 ^ length (c # cs)"
      using "2.prems"(2) by (intro mult_left_mono) simp_all
    ultimately show ?thesis by simp
  next
    case True
    from digitVal_range [OF True] have dv: "0 \<le> digitVal c" "digitVal c \<le> 9" by simp_all
    from True "2.prems" have ok: "\<not> x > 2 ^ 63 div 10" "\<not> x * 10 + digitVal c > 2 ^ 63"
      and rec: "leadingInt_loop (x * 10 + digitVal c) cs = Some (q, r)"
      by (auto simp: Let_def split: if_splits)
    from True have nn: "\<not> \<not> isDigit c" by simp
    from "2.IH" [OF nn ok(1) refl ok(2) rec] "2.prems"(2) dv
    have ih: "x * 10 + digitVal c \<le> q" "q < (x * 10 + digitVal c + 1) * 10 ^ length cs"
      by simp_all
    have "(x * 10 + digitVal c + 1) * 10 ^ length cs \<le> (x * 10 + 10) * 10 ^ length cs"
      using dv by (intro mult_right_mono) simp_all
    with ih(2) have "q < (x * 10 + 10) * 10 ^ length cs" by linarith
    moreover have "x \<le> x * 10 + digitVal c" using "2.prems"(2) dv by simp
    ultimately show ?thesis using ih(1) by (simp add: algebra_simps)
  qed
qed

lemma time_atoi_bound:
  assumes "time_atoi s = Some n" and "length s \<le> 3"
  shows "n < 1000"
proof -
  let ?t = "if s \<noteq> [] \<and> (hd s = CHR ''-'' \<or> hd s = CHR ''+'') then tl s else s"
  from assms(1) obtain q where q: "leadingInt_loop 0 ?t = Some (q, [])"
      and n: "n = q \<or> n = - q"
    by (auto simp: time_atoi_def leadingInt_def Let_def split: option.splits if_splits)
  from leadingInt_loop_bounds [OF q] have b: "0 \<le> q" "q < 10 ^ length ?t" by simp_all
  have "length ?t \<le> 3" using assms(2) by auto
  hence "(10::int) ^ length ?t \<le> 10 ^ 3" by (intro power_increasing) simp_all
  with b n show ?thesis by auto
qed

lemma parseNanoseconds_bound:
  "parseNanoseconds v 4 = Some nsec \<Longrightarrow> nsec < 1000000000"
  using time_atoi_bound [of "take 3 (tl v)"]
  by (auto simp: parseNanoseconds_def split: if_splits option.splits)

lemma time_Parse_negative:
  assumes "time_Parse v = Some t"
  shows "t < 0"
  using assms
  by (auto simp: time_Parse_def yearZero_def Hour_def Minute_def Second_def
      split: option.splits if_splits dest!: parseNanoseconds_bound)

lemma ParseTimeFromString_nonzero:
  "ParseTimeFromString s = Inr t \<Longrightarrow> \<not> IsZero t"
  using time_Parse_negative
  by (auto simp: ParseTimeFromString_def IsZero_def Let_def split: option.splits)

lemma ParseEventFromString_Timestamp:
  "ParseEventFromString line = Inr event \<Longrightarrow> Timestamp event \<noteq> 0"
  using ParseTimeFromString_nonzero
  by (auto simp: ParseEventFromString_def Let_def IsZero_def
      split: if_splits sum.splits option.splits)

subsection \<open>The competitors of a run over a file are well formed\<close>

lemma allWellFormed_LoadEvents_loop:
  "allWellFormed simulator \<Longrightarrow>
   allWellFormed (fst (LoadEvents_loop simulator n prev lines))"
proof (induction simulator n prev lines rule: LoadEvents_loop.induct)
  case (1 simulator lineNumber previousTimestamp)
  then show ?case by simp
next
  case (2 simulator lineNumber previousTimestamp line rest)
  show ?case
  proof (cases "line = []")
    case True
    with 2 show ?thesis by simp
  next
    case False
    show ?thesis
    proof (cases "ParseEventFromString line")
      case (Inl err)
      with False 2 show ?thesis by simp
    next
      case (Inr event)
      have wf: "allWellFormed (fst (ProcessEvent simulator event))"
        using "2.prems" ParseEventFromString_Timestamp [OF Inr]
        by (rule allWellFormed_ProcessEvent)
      show ?thesis
      proof (cases "\<not> IsZero previousTimestamp
                    \<and> Time_Before (Timestamp event) previousTimestamp")
        case True
        with False Inr "2.prems" show ?thesis by simp
      next
        case False
        hence ordered: "(\<not> IsZero previousTimestamp
            \<and> Time_Before (Timestamp event) previousTimestamp) = False" by simp
        obtain s' err where pe: "ProcessEvent simulator event = (s', err)"
          by (cases "ProcessEvent simulator event")
        show ?thesis
        proof (cases err)
          case None
          from "2.IH"(2) [OF \<open>line \<noteq> []\<close> Inr False pe [symmetric] None] wf pe
          have "allWellFormed (fst (LoadEvents_loop s' (lineNumber + 1) (Timestamp event) rest))"
            by simp
          with \<open>line \<noteq> []\<close> Inr ordered pe None "2.prems" show ?thesis by simp
        next
          case (Some e)
          with \<open>line \<noteq> []\<close> Inr ordered pe wf "2.prems" show ?thesis by simp
        qed
      qed
    qed
  qed
qed

lemma allWellFormed_LoadEventsFromFile:
  "allWellFormed (fst (LoadEventsFromFile (NewSimulator cfg) lines keys))"
proof -
  have "allWellFormed (fst (LoadEvents_loop (NewSimulator cfg) 0 0 lines))"
    by (rule allWellFormed_LoadEvents_loop [OF allWellFormed_NewSimulator])
  thus ?thesis
    by (auto simp: LoadEventsFromFile_def allWellFormed_CheckForNotStarted
        split: prod.splits option.splits)
qed

subsection \<open>Events of an unknown kind\<close>

text \<open>
  Claim C8, as amended. An event whose kind is outside the incoming range, from
  Register (1) to CannotContinue (11), the derived kinds Disqualified (32) and Finished
  (33) included, is no error when it names a registered competitor: \<^verbatim>\<open>ProcessEvent\<close>
  returns \<^verbatim>\<open>nil\<close>. The event is recorded: it is appended to the events of the simulator,
  its text is appended to the output log when it is marked as incoming, and its time
  becomes the current time. The configuration stays, and of the competitors only the
  named one changes, in the time of its last event.
\<close>

theorem unknown_kind_is_no_error:
  assumes "Competitors simulator (CompetitorID event) = Some competitor"
    and "\<not> (Register \<le> EventID event \<and> EventID event \<le> CannotContinue)"
  shows "snd (ProcessEvent simulator event) = None \<and>
         Competitors (fst (ProcessEvent simulator event)) =
           (Competitors simulator)(CompetitorID event \<mapsto>
              competitor\<lparr>LastEventTime := Timestamp event\<rparr>) \<and>
         Events (fst (ProcessEvent simulator event)) = Events simulator @ [event] \<and>
         OutputLog (fst (ProcessEvent simulator event)) =
           OutputLog simulator @ (if IsIncoming event then [Event_String event] else []) \<and>
         CurrentTime (fst (ProcessEvent simulator event)) = Timestamp event \<and>
         Config (fst (ProcessEvent simulator event)) = Config simulator"
proof -
  from assms(2) have ne:
    "EventID event \<noteq> Register" "EventID event \<noteq> SetStartTime"
    "EventID event \<noteq> OnStartLine" "EventID event \<noteq> Started"
    "EventID event \<noteq> EnterFiringRange" "EventID event \<noteq> HitTarget"
    "EventID event \<noteq> LeaveFiringRange" "EventID event \<noteq> EnterPenaltyLaps"
    "EventID event \<noteq> LeavePenaltyLaps" "EventID event \<noteq> EndLap"
    "EventID event \<noteq> CannotContinue"
    by (auto simp: EventID_defs)
  show ?thesis
    using assms(1) ne by (simp add: ProcessEvent_registered ProcessEvent_switch_def)
qed

theorem unknown_kind_is_no_error_witness:
  "snd (ProcessEvent (run_lines ready_lines) finished_kind_event) = None \<and>
   Competitors (fst (ProcessEvent (run_lines ready_lines) finished_kind_event)) 1 =
     Some (ready_competitor\<lparr>LastEventTime := Timestamp finished_kind_event\<rparr>) \<and>
   Events (fst (ProcessEvent (run_lines ready_lines) finished_kind_event)) =
     Events (run_lines ready_lines) @ [finished_kind_event] \<and>
   OutputLog (fst (ProcessEvent (run_lines ready_lines) finished_kind_event)) =
     OutputLog (run_lines ready_lines) \<and>
   CurrentTime (fst (ProcessEvent (run_lines ready_lines) finished_kind_event)) =
     Timestamp finished_kind_event \<and>
   Config (fst (ProcessEvent (run_lines ready_lines) finished_kind_event)) =
     Config (run_lines ready_lines)"
proof -
  have reg: "Competitors (run_lines ready_lines) (CompetitorID finished_kind_event)
             = Some ready_competitor"
    by (simp add: sample_runs finished_kind_event_def)
  have kind: "\<not> (Register \<le> EventID finished_kind_event
                 \<and> EventID finished_kind_event \<le> CannotContinue)"
    by (simp add: finished_kind_event_def EventID_defs)
  have k: "CompetitorID finished_kind_event = 1" "\<not> IsIncoming finished_kind_event"
    by (simp_all add: finished_kind_event_def)
  from unknown_kind_is_no_error [OF reg kind] k show ?thesis by simp
qed

text \<open>
  The claim as first stated asks for an error that ends the run. Kind 12 is neither
  incoming nor derived; the event is processed without error, and the run over the whole
  file ends without error.
\<close>

lemma sample_run_unknown_kind:
  "snd (LoadEventsFromFile (NewSimulator example_config)
          (ready_lines @ [''[10:00:00.000] 12 1'']) [1]) = None"
  by code_simp

theorem unknown_kind_counterexample:
  "ParseEventFromString ''[10:00:00.000] 12 1'' = Inr unknown_kind_event \<and>
   EventID unknown_kind_event = 12 \<and>
   \<not> (Register \<le> EventID unknown_kind_event \<and> EventID unknown_kind_event \<le> CannotContinue) \<and>
   EventID unknown_kind_event \<noteq> Disqualified \<and>
   EventID unknown_kind_event \<noteq> Finished \<and>
   Competitors (run_lines ready_lines) (CompetitorID unknown_kind_event)
     = Some ready_competitor \<and>
   snd (ProcessEvent (run_lines ready_lines) unknown_kind_event) = None \<and>
   snd (LoadEventsFromFile (NewSimulator example_config)
          (ready_lines @ [''[10:00:00.000] 12 1'']) [1]) = None"
proof -
  have reg: "Competitors (run_lines ready_lines) (CompetitorID unknown_kind_event)
             = Some ready_competitor"
    by (simp add: sample_runs unknown_kind_event_def)
  have kind: "EventID unknown_kind_event = 12" "EventID unknown_kind_event \<noteq> Register"
    by (simp_all add: unknown_kind_event_def EventID_defs)
  have "snd (ProcessEvent (run_lines ready_lines) unknown_kind_event) = None"
    using kind
    by (simp add: ProcessEvent_registered [OF reg kind(2)] ProcessEvent_switch_def
        EventID_defs)
  with reg kind parsed_events sample_run_unknown_kind
  show ?thesis by (simp add: EventID_defs)
qed

subsection \<open>Registering twice\<close>

text \<open>
  Claim C10. A Register event for a competitor who is already in the map returns no
  error and leaves the map of competitors as it is: the competitor named keeps every
  field, and so does every other competitor.
\<close>

theorem register_existing_keeps_competitors:
  assumes "EventID event = Register"
    and "Competitors simulator (CompetitorID event) = Some competitor"
  shows "snd (ProcessEvent simulator event) = None \<and>
         Competitors (fst (ProcessEvent simulator event)) = Competitors simulator"
  using assms by (simp add: ProcessEvent_def Let_def)

theorem register_existing_keeps_competitors_witness:
  "snd (ProcessEvent (run_lines started_lines) register_again_event) = None \<and>
   Competitors (fst (ProcessEvent (run_lines started_lines) register_again_event))
     = Competitors (run_lines started_lines)"
proof -
  have ev: "EventID register_again_event = Register"
    by (simp add: register_again_event_def Register_def)
  have reg: "Competitors (run_lines started_lines) (CompetitorID register_again_event)
             = Some started_competitor"
    by (simp add: sample_runs register_again_event_def)
  from register_existing_keeps_competitors [OF ev reg] show ?thesis .
qed

subsection \<open>One firing line too many\<close>

text \<open>
  Claim C5, as amended. A competitor has completed all configured firing lines and an
  EnterFiringRange event arrives. \<^verbatim>\<open>ProcessEvent\<close> returns no error. A competitor who is
  not yet in a terminal status is disqualified: status Disqualified, the reason
  \<^verbatim>\<open>Extra firing line\<close>, the time of the event as finish time. A competitor already in a
  terminal status only has the time of the last event updated.
\<close>

theorem extra_firing_line_disqualifies:
  assumes reg: "Competitors simulator (CompetitorID event) = Some competitor"
    and ev: "EventID event = EnterFiringRange"
    and complete: "TotalFiringRangesCompleted competitor \<ge> FiringLines (Config simulator)"
  shows "snd (ProcessEvent simulator event) = None \<and>
         Competitors (fst (ProcessEvent simulator event)) (CompetitorID event) =
           Some (if terminal (Status competitor)
                 then competitor\<lparr>LastEventTime := Timestamp event\<rparr>
                 else competitor\<lparr>LastEventTime := Timestamp event,
                        FinishTime := Timestamp event, Status := StatusDisqualified,
                        DisqualificationReason := ''Extra firing line''\<rparr>)"
proof (cases "terminal (Status competitor)")
  case True
  with assms show ?thesis
    by (simp add: ProcessEvent_registered ProcessEvent_switch_def case_EnterFiringRange_def
        EventID_defs DisqualifyCompetitor_terminal)
next
  case False
  with assms show ?thesis
    by (simp add: ProcessEvent_registered ProcessEvent_switch_def case_EnterFiringRange_def
        EventID_defs DisqualifyCompetitor_live case_prod_beta)
qed

theorem extra_firing_line_disqualifies_witness:
  "snd (ProcessEvent (run_lines shot_lines) second_range_event) = None \<and>
   Competitors (fst (ProcessEvent (run_lines shot_lines) second_range_event)) 1 =
     Some (shot_competitor\<lparr>LastEventTime := Timestamp second_range_event,
             FinishTime := Timestamp second_range_event, Status := StatusDisqualified,
             DisqualificationReason := ''Extra firing line''\<rparr>)"
proof -
  have reg: "Competitors (run_lines shot_lines) (CompetitorID second_range_event)
             = Some shot_competitor"
    by (simp add: sample_runs second_range_event_def)
  have ev: "EventID second_range_event = EnterFiringRange"
    by (simp add: second_range_event_def EnterFiringRange_def)
  have complete: "TotalFiringRangesCompleted shot_competitor
                  \<ge> FiringLines (Config (run_lines shot_lines))"
    by (simp add: sample_runs shot_competitor_def example_config_def)
  have live: "\<not> terminal (Status shot_competitor)"
    by (simp add: shot_competitor_def terminal_def)
  have k: "CompetitorID second_range_event = 1" by (simp add: second_range_event_def)
  from extra_firing_line_disqualifies [OF reg ev complete] live k show ?thesis by simp
qed

text \<open>
  The claim as first stated asks for an error. Competitor 1 has shot on the only firing
  line and enters a firing line again: no error is returned and the run over the whole
  file ends without error. After the finish the same event leaves the status Finished.
\<close>

lemma sample_run_extra_firing_line:
  "snd (LoadEventsFromFile (NewSimulator example_config)
          (shot_lines @ [''[10:07:00.000] 5 1 2'']) [1]) = None"
  by code_simp

theorem extra_firing_line_counterexample:
  "Competitors (run_lines shot_lines) (CompetitorID second_range_event)
     = Some shot_competitor \<and>
   TotalFiringRangesCompleted shot_competitor \<ge> FiringLines (Config (run_lines shot_lines)) \<and>
   EventID second_range_event = EnterFiringRange \<and>
   snd (ProcessEvent (run_lines shot_lines) second_range_event) = None \<and>
   snd (LoadEventsFromFile (NewSimulator example_config)
          (shot_lines @ [''[10:07:00.000] 5 1 2'']) [1]) = None \<and>
   Competitors (run_lines finished_lines) (CompetitorID range_after_finish_event)
     = Some finished_competitor \<and>
   TotalFiringRangesCompleted finished_competitor
     \<ge> FiringLines (Config (run_lines finished_lines)) \<and>
   EventID range_after_finish_event = EnterFiringRange \<and>
   Status finished_competitor = StatusFinished \<and>
   Competitors (fst (ProcessEvent (run_lines finished_lines) range_after_finish_event))
     (CompetitorID range_after_finish_event)
     = Some (finished_competitor\<lparr>LastEventTime := Timestamp range_after_finish_event\<rparr>)"
proof -
  have r1: "Competitors (run_lines shot_lines) (CompetitorID second_range_event)
            = Some shot_competitor"
    and r2: "Competitors (run_lines finished_lines) (CompetitorID range_after_finish_event)
            = Some finished_competitor"
    by (simp_all add: sample_runs second_range_event_def range_after_finish_event_def)
  have ev: "EventID second_range_event = EnterFiringRange"
    "EventID range_after_finish_event = EnterFiringRange"
    "EventID second_range_event \<noteq> Register"
    "EventID range_after_finish_event \<noteq> Register"
    by (simp_all add: second_range_event_def range_after_finish_event_def EventID_defs)
  have c1: "TotalFiringRangesCompleted shot_competitor
            \<ge> FiringLines (Config (run_lines shot_lines))"
    and c2: "TotalFiringRangesCompleted finished_competitor
            \<ge> FiringLines (Config (run_lines finished_lines))"
    by (simp_all add: sample_runs shot_competitor_def finished_competitor_def
        example_config_def)
  have t: "terminal (Status finished_competitor)"
    "Status finished_competitor = StatusFinished"
    by (simp_all add: finished_competitor_def terminal_def)
  have p1: "snd (ProcessEvent (run_lines shot_lines) second_range_event) = None"
    using c1 ev
    by (simp add: ProcessEvent_registered [OF r1 ev(3)] ProcessEvent_switch_def
        case_EnterFiringRange_def EventID_defs case_prod_beta)
  have p2: "Competitors (fst (ProcessEvent (run_lines finished_lines)
                                 range_after_finish_event))
              (CompetitorID range_after_finish_event)
            = Some (finished_competitor\<lparr>LastEventTime :=
                      Timestamp range_after_finish_event\<rparr>)"
    using c2 ev t(1)
    by (simp add: ProcessEvent_registered [OF r2 ev(4)] ProcessEvent_switch_def
        case_EnterFiringRange_def EventID_defs DisqualifyCompetitor_terminal)
  from r1 r2 ev c1 c2 t p1 p2 sample_run_extra_firing_line
  show ?thesis by simp
qed

subsection \<open>Leaving the firing range\<close>

text \<open>
  Claim C2. A competitor is in status Firing and the firing line last entered is the one
  after those completed (the count of completed lines is never negative, see
  \<open>wellFormed\<close> below). Then a LeaveFiringRange event returns no error, adds 5 to the
  shots, 1 to the completed firing lines and \<open>max 0 (5 - hits)\<close> to the misses to
  penalize, resets the hits of the range and the line entered to 0, and sets the status
  to Started exactly if no miss is left to penalize (the status stays Firing otherwise).
\<close>

theorem leave_firing_range_counts:
  assumes reg: "Competitors simulator (CompetitorID event) = Some competitor"
    and ev: "EventID event = LeaveFiringRange"
    and firing: "Status competitor = StatusFiring"
    and entered: "LastFiringRangeEntered competitor
                  = TotalFiringRangesCompleted competitor + 1"
    and nonneg: "0 \<le> TotalFiringRangesCompleted competitor"
  shows "snd (ProcessEvent simulator event) = None \<and>
    (\<exists>c'. Competitors (fst (ProcessEvent simulator event)) (CompetitorID event) = Some c' \<and>
       TotalShots c' = TotalShots competitor + 5 \<and>
       TotalFiringRangesCompleted c' = TotalFiringRangesCompleted competitor + 1 \<and>
       MissesToPenalize c' =
         MissesToPenalize competitor + max 0 (5 - HitsThisRange competitor) \<and>
       HitsThisRange c' = 0 \<and>
       LastFiringRangeEntered c' = 0 \<and>
       (Status c' = StatusStarted \<longleftrightarrow> MissesToPenalize c' = 0) \<and>
       (Status c' = StatusStarted \<or> Status c' = StatusFiring))"
  using assms
  by (auto simp: ProcessEvent_registered ProcessEvent_switch_def case_LeaveFiringRange_def
      EventID_defs Let_def max_def)

theorem leave_firing_range_counts_witness:
  "snd (ProcessEvent (run_lines shooting_lines) leave_range_event) = None \<and>
   (\<exists>c'. Competitors (fst (ProcessEvent (run_lines shooting_lines) leave_range_event)) 1
          = Some c' \<and>
      TotalShots c' = 5 \<and> TotalFiringRangesCompleted c' = 1 \<and> MissesToPenalize c' = 4 \<and>
      HitsThisRange c' = 0 \<and> LastFiringRangeEntered c' = 0 \<and> Status c' = StatusFiring)"
proof -
  have reg: "Competitors (run_lines shooting_lines) (CompetitorID leave_range_event)
             = Some shooting_competitor"
    by (simp add: sample_runs leave_range_event_def)
  have ev: "EventID leave_range_event = LeaveFiringRange"
    by (simp add: leave_range_event_def LeaveFiringRange_def)
  have firing: "Status shooting_competitor = StatusFiring"
    and entered: "LastFiringRangeEntered shooting_competitor
                  = TotalFiringRangesCompleted shooting_competitor + 1"
    and nonneg: "0 \<le> TotalFiringRangesCompleted shooting_competitor"
    and vals: "TotalShots shooting_competitor = 0" "MissesToPenalize shooting_competitor = 0"
      "HitsThisRange shooting_competitor = 1"
      "TotalFiringRangesCompleted shooting_competitor = 0"
    by (simp_all add: shooting_competitor_def)
  have k: "CompetitorID leave_range_event = 1" by (simp add: leave_range_event_def)
  from leave_firing_range_counts [OF reg ev firing entered nonneg] vals k
  show ?thesis by auto
qed

subsection \<open>Terminal transitions\<close>

text \<open>What CannotContinue does.\<close>

lemma ProcessEvent_CannotContinue:
  assumes reg: "Competitors simulator (CompetitorID event) = Some competitor"
    and ev: "EventID event = CannotContinue"
  shows "snd (ProcessEvent simulator event) = None \<and>
    (\<exists>c'. Competitors (fst (ProcessEvent simulator event)) (CompetitorID event) = Some c' \<and>
       (if Status competitor \<noteq> StatusFinished \<and> Status competitor \<noteq> StatusNotStarted
           \<and> Status competitor \<noteq> StatusDisqualified
        then Status c' = StatusNotFinished \<and> FinishTime c' = Timestamp event \<and>
             DisqualificationReason c' =
               (if length (ExtraParameters event) > 0
                then strings_Join (ExtraParameters event) '' ''
                else ''Reason not specified'')
        else c' = competitor\<lparr>LastEventTime := Timestamp event\<rparr>))"
  using assms
  by (auto simp: ProcessEvent_registered ProcessEvent_switch_def case_CannotContinue_def
      EventID_defs Let_def penaltySummary_def)

text \<open>
  Claim C3 does not hold of \<^verbatim>\<open>ProcessEvent\<close>. \<^verbatim>\<open>FinishCompetitor\<close> and
  \<^verbatim>\<open>DisqualifyCompetitor\<close> return at once on each of the four terminal statuses, but the
  test in the CannotContinue case leaves NotFinished out. Competitor 1 retired at
  09:59:59.5 with the reason \<^verbatim>\<open>Fell\<close>; a second CannotContinue event at 10:30:00 with the
  reason \<^verbatim>\<open>Lost\<close> overwrites the finish time and the reason.
\<close>

theorem cannot_continue_twice_overwrites:
  "Competitors (run_lines retired_lines) (CompetitorID retire_again_event)
     = Some retired_competitor \<and>
   Status retired_competitor = StatusNotFinished \<and>
   FinishTime retired_competitor = - 31586400500000000 \<and>
   DisqualificationReason retired_competitor = ''Fell'' \<and>
   ParseEventFromString ''[10:30:00.000] 11 1 Lost'' = Inr retire_again_event \<and>
   EventID retire_again_event = CannotContinue \<and>
   snd (ProcessEvent (run_lines retired_lines) retire_again_event) = None \<and>
   (\<exists>c'. Competitors (fst (ProcessEvent (run_lines retired_lines) retire_again_event))
            (CompetitorID retire_again_event) = Some c' \<and>
      Status c' = StatusNotFinished \<and>
      FinishTime c' = - 31584600000000000 \<and>
      DisqualificationReason c' = ''Lost'')"
proof -
  have reg: "Competitors (run_lines retired_lines) (CompetitorID retire_again_event)
             = Some retired_competitor"
    by (simp add: sample_runs retire_again_event_def)
  have ev: "EventID retire_again_event = CannotContinue"
    by (simp add: retire_again_event_def CannotContinue_def)
  have st: "Status retired_competitor = StatusNotFinished"
    "FinishTime retired_competitor = - 31586400500000000"
    "DisqualificationReason retired_competitor = ''Fell''"
    by (simp_all add: retired_competitor_def)
  have e: "Timestamp retire_again_event = - 31584600000000000"
    "ExtraParameters retire_again_event = [''Lost'']"
    by (simp_all add: retire_again_event_def)
  from ProcessEvent_CannotContinue [OF reg ev] reg ev st e parsed_events
  show ?thesis by simp
qed

text \<open>
  The rest of the claim holds: finishing and disqualifying are no-ops on every terminal
  status, and CannotContinue is one on Finished, NotStarted and Disqualified.
\<close>

lemma terminal_transitions_noop:
  assumes "terminal (Status competitor)"
  shows "FinishCompetitor simulator competitor t = (simulator, competitor)"
    and "DisqualifyCompetitor simulator competitor t reason = (simulator, competitor)"
    and "Status competitor \<noteq> StatusNotFinished \<Longrightarrow>
         case_CannotContinue simulator competitor event = (simulator, competitor, None)"
  using assms
  by (auto simp: FinishCompetitor_terminal DisqualifyCompetitor_terminal
      case_CannotContinue_def terminal_def)

section \<open>Properties of the ranking\<close>

lemma sortLess_sortKey: "sortLess a b \<longleftrightarrow> sortKey a < sortKey b"
  by (auto simp: sortLess_def sortKey_def Let_def case_prod_beta)

lemma insertStable_insort_key: "insertStable sortLess x ys = insort_key sortKey x ys"
  by (induction ys) (auto simp: sortLess_sortKey)

lemma SliceStable_sort_key: "SliceStable sortLess xs = sort_key sortKey xs"
proof -
  have "insertStable sortLess = insort_key sortKey"
    by (intro ext) (rule insertStable_insort_key)
  thus ?thesis by (simp add: SliceStable_def sort_key_def)
qed

lemma CalculateTotalTime_started:
  "Status c = StatusFinished \<Longrightarrow> \<not> IsZero (ActualStartTime c) \<Longrightarrow>
   CalculateTotalTime c = (totalTime c, True)"
  by (simp add: CalculateTotalTime_def totalTime_def Let_def max_def)

lemma sortKey_le_rankedBefore:
  assumes "sortKey a \<le> sortKey b"
    and "Status a = StatusFinished \<longrightarrow> \<not> IsZero (ActualStartTime a)"
    and "Status b = StatusFinished \<longrightarrow> \<not> IsZero (ActualStartTime b)"
  shows "rankedBefore a b"
  using assms
  by (auto simp: sortKey_def rankedBefore_def CalculateTotalTime_started less_eq_prod_def
      split: if_splits)

lemma SliceStable_ranked:
  assumes "\<forall>c \<in> set cs. Status c = StatusFinished \<longrightarrow> \<not> IsZero (ActualStartTime c)"
    and "i < j" and "j < length (SliceStable sortLess cs)"
  shows "rankedBefore (SliceStable sortLess cs ! i) (SliceStable sortLess cs ! j)"
proof -
  let ?r = "SliceStable sortLess cs"
  have r: "?r = sort_key sortKey cs" by (rule SliceStable_sort_key)
  have "sorted (map sortKey ?r)" unfolding r by (rule sorted_sort_key)
  moreover have "i \<le> j" "j < length (map sortKey ?r)" using assms(2,3) by simp_all
  ultimately have "map sortKey ?r ! i \<le> map sortKey ?r ! j"
    by (rule sorted_nth_mono)
  hence le: "sortKey (?r ! i) \<le> sortKey (?r ! j)" using assms(2,3) by simp
  have "set ?r = set cs" unfolding r by simp
  hence "?r ! i \<in> set cs" "?r ! j \<in> set cs"
    using assms(2,3) nth_mem [of i ?r] nth_mem [of j ?r] by auto
  with assms(1) le show ?thesis by (intro sortKey_le_rankedBefore) auto
qed

lemma map_filter_Competitors:
  "c \<in> set (List.map_filter (Competitors simulator) keys) \<Longrightarrow>
   \<exists>k. Competitors simulator k = Some c"
  by (auto simp: List.map_filter_def)

text \<open>
  Claim C4. The competitors of a run are such that every finisher has an actual start
  time (\<open>allWellFormed_LoadEventsFromFile\<close> and \<open>allWellFormed_finishersHaveStarted\<close>
  below). For such a collection, in whatever order \<open>keys\<close> the map is read,
  \<^verbatim>\<open>GetSortedCompetitors\<close> returns the competitors read, each as often as it was read,
  and of any two places of the result the earlier is ranked before the later: a
  finisher before every competitor who has not finished, finishers by ascending total
  time and then ascending number, the others by the rank of the status (NotFinished,
  NotStarted, Disqualified, any other) and then ascending number. The relation is a
  total order on the numbers (\<open>rankedBefore_total\<close>, \<open>rankedBefore_trans\<close>,
  \<open>rankedBefore_antisym\<close>), and the result for a run is the same in whatever order
  the map is read (\<open>ranking_independent_of_map_order\<close>).
\<close>

theorem sorted_competitors_ranked:
  assumes "finishersHaveStarted simulator"
  shows "mset (GetSortedCompetitors simulator keys)
           = mset (List.map_filter (Competitors simulator) keys) \<and>
         (\<forall>i j. i < j \<and> j < length (GetSortedCompetitors simulator keys) \<longrightarrow>
            rankedBefore (GetSortedCompetitors simulator keys ! i)
              (GetSortedCompetitors simulator keys ! j))"
proof -
  let ?cs = "List.map_filter (Competitors simulator) keys"
  have "\<forall>c \<in> set ?cs. Status c = StatusFinished \<longrightarrow> \<not> IsZero (ActualStartTime c)"
    using assms map_filter_Competitors [of _ simulator keys]
    unfolding finishersHaveStarted_def by blast
  hence "\<forall>i j. i < j \<and> j < length (SliceStable sortLess ?cs) \<longrightarrow>
     rankedBefore (SliceStable sortLess ?cs ! i) (SliceStable sortLess ?cs ! j)"
    using SliceStable_ranked [of ?cs] by blast
  moreover have "mset (SliceStable sortLess ?cs) = mset ?cs"
    by (simp add: SliceStable_sort_key)
  ultimately show ?thesis by (simp add: GetSortedCompetitors_def Let_def)
qed

lemma rankedBefore_total: "rankedBefore a b \<or> rankedBefore b a"
  by (auto simp: rankedBefore_def)

lemma rankedBefore_trans: "rankedBefore a b \<Longrightarrow> rankedBefore b c \<Longrightarrow> rankedBefore a c"
  by (auto simp: rankedBefore_def split: if_splits)

lemma rankedBefore_antisym: "rankedBefore a b \<Longrightarrow> rankedBefore b a \<Longrightarrow> ID a = ID b"
  by (auto simp: rankedBefore_def split: if_splits)

lemma statusRank_order:
  "statusRank StatusNotFinished < statusRank StatusNotStarted \<and>
   statusRank StatusNotStarted < statusRank StatusDisqualified \<and>
   (s \<notin> {StatusNotFinished, StatusNotStarted, StatusDisqualified} \<longrightarrow>
      statusRank StatusDisqualified < statusRank s)"
  by (cases s) (simp_all add: statusRank_def)

lemma allWellFormed_finishersHaveStarted:
  "allWellFormed simulator \<Longrightarrow> finishersHaveStarted simulator"
  by (auto simp: allWellFormed_def finishersHaveStarted_def wellFormed_def)

text \<open>
  The ranking does not depend on the order in which the map is read: the key of the
  comparison ends in the competitor's number, and the competitors of a run are kept
  under their own numbers, so no two of them compare equal.
\<close>

lemma sortKey_ID: "sortKey a = sortKey b \<Longrightarrow> ID a = ID b"
  by (auto simp: sortKey_def split: if_splits)

lemma read_competitors:
  "List.map_filter (Competitors simulator) keys
   = map (\<lambda>k. the (Competitors simulator k))
       (filter (\<lambda>k. Competitors simulator k \<noteq> None) keys)"
  by (induction keys) (auto simp: List.map_filter_def)

lemma ranking_independent_of_map_order:
  assumes wf: "allWellFormed simulator" and same: "mset keys = mset keys'"
  shows "GetSortedCompetitors simulator keys = GetSortedCompetitors simulator keys'"
proof -
  let ?cs = "List.map_filter (Competitors simulator) keys"
  let ?cs' = "List.map_filter (Competitors simulator) keys'"
  have m: "mset ?cs = mset ?cs'"
  proof -
    have "mset (filter (\<lambda>k. Competitors simulator k \<noteq> None) keys)
          = mset (filter (\<lambda>k. Competitors simulator k \<noteq> None) keys')"
      using same by (simp only: mset_filter)
    hence "mset (map (\<lambda>k. the (Competitors simulator k))
                   (filter (\<lambda>k. Competitors simulator k \<noteq> None) keys))
           = mset (map (\<lambda>k. the (Competitors simulator k))
                   (filter (\<lambda>k. Competitors simulator k \<noteq> None) keys'))"
      by (simp only: mset_map)
    thus ?thesis by (simp only: read_competitors)
  qed
  have inj: "a = b" if "a \<in> set ?cs" "b \<in> set ?cs" "sortKey a = sortKey b" for a b
  proof -
    from that(1,2) obtain k l where
      "Competitors simulator k = Some a" "Competitors simulator l = Some b"
      using map_filter_Competitors by blast
    moreover from this wf have "ID a = k" "ID b = l" by (auto simp: allWellFormed_def)
    moreover have "ID a = ID b" using that(3) by (rule sortKey_ID)
    ultimately show ?thesis by simp
  qed
  have "mset ?cs' = mset (sort_key sortKey ?cs)" using m by simp
  moreover have "inj_on sortKey (set ?cs')"
  proof (rule inj_onI)
    fix a b assume "a \<in> set ?cs'" "b \<in> set ?cs'" "sortKey a = sortKey b"
    moreover have "set ?cs' = set ?cs" using m by (metis mset_eq_setD)
    ultimately show "a = b" using inj by simp
  qed
  moreover have "sorted (map sortKey (sort_key sortKey ?cs))" by (rule sorted_sort_key)
  ultimately have "sort_key sortKey ?cs' = sort_key sortKey ?cs"
    by (rule sort_key_inj_key_eq)
  thus ?thesis by (simp add: GetSortedCompetitors_def Let_def SliceStable_sort_key)
qed

text \<open>
  The instance: four competitors; 2 finishes in 20 minutes, 1 in 21 minutes, 4 cannot
  continue and 3 never starts. The map is read in the order 3, 1, 4, 2.
\<close>

lemma race_ranking: "map ID (GetSortedCompetitors race_result [3, 1, 4, 2]) = [2, 1, 4, 3]"
  by code_simp

theorem sorted_competitors_ranked_witness:
  "map ID (GetSortedCompetitors race_result [3, 1, 4, 2]) = [2, 1, 4, 3] \<and>
   rankedBefore (GetSortedCompetitors race_result [3, 1, 4, 2] ! 0)
     (GetSortedCompetitors race_result [3, 1, 4, 2] ! 1) \<and>
   rankedBefore (GetSortedCompetitors race_result [3, 1, 4, 2] ! 1)
     (GetSortedCompetitors race_result [3, 1, 4, 2] ! 2) \<and>
   rankedBefore (GetSortedCompetitors race_result [3, 1, 4, 2] ! 2)
     (GetSortedCompetitors race_result [3, 1, 4, 2] ! 3)"
proof -
  have started: "finishersHaveStarted race_result"
    unfolding race_result_def
    by (intro allWellFormed_finishersHaveStarted allWellFormed_LoadEventsFromFile)
  have "length (map ID (GetSortedCompetitors race_result [3, 1, 4, 2])) = 4"
    by (simp only: race_ranking) simp
  hence len: "length (GetSortedCompetitors race_result [3, 1, 4, 2]) = 4" by simp
  from sorted_competitors_ranked [OF started, of "[3, 1, 4, 2]"] len race_ranking
  show ?thesis by simp
qed

section \<open>Properties of the configuration loader\<close>

lemma example_strings_parse:
  "ParseTimeFromString ''[10:00:00.000]'' = Inr (- 31586400000000000) \<and>
   ParseDurationFromString ''00:00:30.000'' = Inr 30000000000"
  by code_simp

text \<open>
  Claim C6, as amended. \<^verbatim>\<open>LoadConfiguration\<close> accepts a decoded configuration exactly
  if the start time and the start delta parse and the lap count, the lap length, the
  penalty-lap length and the firing-line count are all positive. A penalty-lap length
  of 0 is rejected.
\<close>

theorem LoadConfiguration_accepts_iff:
  "(\<exists>cfg'. LoadConfiguration cfg = Inr cfg') \<longleftrightarrow>
     (\<exists>t. ParseTimeFromString (''['' @ Start cfg @ '']'') = Inr t) \<and>
     (\<exists>d. ParseDurationFromString (StartDelta cfg) = Inr d) \<and>
     0 < Laps cfg \<and> 0 < LapLen cfg \<and> 0 < PenaltyLen cfg \<and> 0 < FiringLines cfg"
  by (auto simp: LoadConfiguration_def Let_def split: sum.splits)

theorem LoadConfiguration_accepts_iff_witness:
  "LoadConfiguration example_raw_config = Inr example_config"
proof -
  have "(\<exists>t. ParseTimeFromString (''['' @ Start example_raw_config @ '']'') = Inr t) \<and>
     (\<exists>d. ParseDurationFromString (StartDelta example_raw_config) = Inr d) \<and>
     0 < Laps example_raw_config \<and> 0 < LapLen example_raw_config \<and>
     0 < PenaltyLen example_raw_config \<and> 0 < FiringLines example_raw_config"
    using example_strings_parse by (simp add: example_raw_config_def)
  with LoadConfiguration_accepts_iff [of example_raw_config]
  obtain cfg' where "LoadConfiguration example_raw_config = Inr cfg'" by blast
  thus ?thesis
    using example_strings_parse
    by (auto simp: LoadConfiguration_def Let_def example_raw_config_def example_config_def
        split: sum.splits if_splits)
qed

text \<open>
  The claim as first stated has a penalty-lap length of 0 accepted. The sample
  configuration with that length set to 0 parses, has positive laps, lap length and
  firing lines, and is rejected.
\<close>

theorem LoadConfiguration_counterexample:
  "PenaltyLen zero_penalty_config = 0 \<and>
   0 < Laps zero_penalty_config \<and> 0 < LapLen zero_penalty_config \<and>
   0 < FiringLines zero_penalty_config \<and>
   ParseTimeFromString (''['' @ Start zero_penalty_config @ '']'')
     = Inr (- 31586400000000000) \<and>
   ParseDurationFromString (StartDelta zero_penalty_config) = Inr 30000000000 \<and>
   LoadConfiguration zero_penalty_config = Inl IncorrectConfigValues"
  using example_strings_parse
  by (simp add: LoadConfiguration_def Let_def zero_penalty_config_def example_raw_config_def)

section \<open>Properties of the report\<close>

lemma length_lapParts:
  "length (lapParts lapDetails status currentLap) =
     (if status = StatusNotStarted then 0
      else if status \<noteq> StatusFinished \<and> currentLap > int (length lapDetails)
      then nat currentLap
      else length lapDetails)"
  by (simp add: lapParts_def totalExpectedLapEntries_def Let_def)

lemma nth_lapParts:
  "i < length (lapParts lapDetails status currentLap) \<Longrightarrow>
   lapParts lapDetails status currentLap ! i =
     (if i < length lapDetails \<and> Duration (lapDetails ! i) > 0
      then ''{'' @ FormatDuration (Duration (lapDetails ! i)) @ '', ''
           @ Sprintf_f3 (Speed (lapDetails ! i)) @ ''}''
      else ''{,}'')"
  by (simp add: lapParts_def lapEntry_def Let_def)

text \<open>
  Claim C7, as amended. The report line of a competitor is the final status, the
  number, the lap list in brackets with its entries joined by a comma and a space, the
  penalty summary and the shooting fraction. The lap list has no entry for a competitor
  in status NotStarted; it has as many entries as the competitor's current lap if the
  competitor has not finished and the current lap is beyond the laps recorded; and
  otherwise one entry for each lap recorded. The configured lap count plays no part.
  An entry is the pair of the formatted duration and the speed with three decimals if
  the lap is recorded with a positive duration, and the empty pair \<^verbatim>\<open>{,}\<close> otherwise.
\<close>

theorem report_lap_list:
  "formatCompetitorResult competitor =
     FinalStatusString competitor @ '' '' @ Sprintf_d (ID competitor) @ '' ''
     @ ''['' @ strings_Join (lapParts (LapDetails competitor) (Status competitor)
                              (CurrentLap competitor)) '', '' @ '']'' @ '' ''
     @ formatPenaltyDetails (PenaltyDetails competitor) (TotalPenaltyLaps competitor > 0)
     @ '' '' @ Sprintf_d (TotalHits competitor) @ ''/'' @ Sprintf_d (TotalShots competitor)
   \<and> length (lapParts (LapDetails competitor) (Status competitor) (CurrentLap competitor)) =
       (if Status competitor = StatusNotStarted then 0
        else if Status competitor \<noteq> StatusFinished
                \<and> CurrentLap competitor > int (length (LapDetails competitor))
        then nat (CurrentLap competitor)
        else length (LapDetails competitor))
   \<and> (\<forall>i < length (lapParts (LapDetails competitor) (Status competitor)
                       (CurrentLap competitor)).
        lapParts (LapDetails competitor) (Status competitor) (CurrentLap competitor) ! i =
          (if i < length (LapDetails competitor) \<and> Duration (LapDetails competitor ! i) > 0
           then ''{'' @ FormatDuration (Duration (LapDetails competitor ! i)) @ '', ''
                @ Sprintf_f3 (Speed (LapDetails competitor ! i)) @ ''}''
           else ''{,}''))"
  using nth_lapParts [of _ "LapDetails competitor" "Status competitor" "CurrentLap competitor"]
  by (simp add: formatCompetitorResult_def formatLapDetails_def Let_def length_lapParts)

text \<open>
  The instance is the finisher of the sample run, with two laps of ten minutes. The
  claim as first stated fails for the competitor who has started and for the one who
  has retired before the start: two laps are configured, and their lap lists have one
  entry and none.
\<close>

lemma finished_report_line:
  "formatCompetitorResult finished_competitor =
     ''00:20:00.000 1 [{00:10:00.000, 5.833}, {00:10:00.000, 5.833}] {00:00:20.000, 30.000} 1/5''"
  by code_simp

lemma started_report_line:
  "formatCompetitorResult started_competitor = ''[In Progress] 1 [{,}] {,} 0/0''"
  by code_simp

theorem report_lap_list_witness:
  "length (lapParts (LapDetails finished_competitor) (Status finished_competitor)
             (CurrentLap finished_competitor)) = 2 \<and>
   lapParts (LapDetails finished_competitor) (Status finished_competitor)
     (CurrentLap finished_competitor) ! 1 =
     ''{'' @ FormatDuration 600000000000 @ '', '' @ Sprintf_f3 (float64 (35 / 6)) @ ''}''"
proof -
  have len: "length (LapDetails finished_competitor) = 2"
    "Status finished_competitor = StatusFinished"
    "LapDetails finished_competitor ! 1 = \<lparr>Duration = 600000000000, Speed = float64 (35 / 6)\<rparr>"
    by (simp_all add: finished_competitor_def)
  from report_lap_list [of finished_competitor] len show ?thesis by simp
qed

theorem report_lap_list_counterexample:
  "Competitors (run_lines started_lines) 1 = Some started_competitor \<and>
   Laps (Config (run_lines started_lines)) = 2 \<and>
   lapParts (LapDetails started_competitor) (Status started_competitor)
     (CurrentLap started_competitor) = [''{,}''] \<and>
   formatCompetitorResult started_competitor = ''[In Progress] 1 [{,}] {,} 0/0'' \<and>
   Competitors (run_lines retired_lines) 1 = Some retired_competitor \<and>
   Laps (Config (run_lines retired_lines)) = 2 \<and>
   lapParts (LapDetails retired_competitor) (Status retired_competitor)
     (CurrentLap retired_competitor) = []"
  using started_report_line
  by (simp add: sample_runs example_config_def lapParts_def totalExpectedLapEntries_def
      lapEntry_def started_competitor_def retired_competitor_def)

section \<open>Properties of the duration codec\<close>

subsection \<open>Decimal text and the numbers read from it\<close>

lemma digitsValue_simps [simp]:
  "digitsValue x [] = x"
  "digitsValue x (c # cs) = digitsValue (x * 10 + digitVal c) cs"
  "digitsValue x (s @ t) = digitsValue (digitsValue x s) t"
  by (simp_all add: digitsValue_def)

lemma digit_char:
  assumes "k < 10"
  shows "isDigit (char_of (48 + k))" and "digitVal (char_of (48 + k)) = int k"
  using assms by (simp_all add: isDigit_def digitVal_def)

lemma show_nat_digits: "list_all isDigit (show_nat n)"
proof (induction n rule: show_nat.induct)
  case (1 n)
  show ?case
  proof (cases "n < 10")
    case True
    then show ?thesis by (subst show_nat.simps) (simp add: digit_char)
  next
    case False
    have "n mod 10 < 10" by simp
    with False 1 show ?thesis by (subst show_nat.simps) (simp add: digit_char)
  qed
qed

lemma show_nat_nonempty: "show_nat n \<noteq> []"
  by (subst show_nat.simps) simp

lemma digitsValue_show_nat:
  "digitsValue x (show_nat n) = x * 10 ^ length (show_nat n) + int n"
proof (induction n arbitrary: x rule: show_nat.induct)
  case (1 n)
  show ?case
  proof (cases "n < 10")
    case True
    then show ?thesis by (subst (1 2) show_nat.simps) (simp add: digit_char)
  next
    case False
    have m: "n mod 10 < 10" by simp
    have "digitsValue x (show_nat n)
          = digitsValue x (show_nat (n div 10)) * 10 + int (n mod 10)"
      using False by (subst show_nat.simps) (simp add: digit_char [OF m])
    also have "\<dots> = (x * 10 ^ length (show_nat (n div 10)) + int (n div 10)) * 10
                     + int (n mod 10)"
      using 1 False by simp
    also have "\<dots> = x * 10 ^ length (show_nat n) + int n"
    proof -
      have "length (show_nat n) = Suc (length (show_nat (n div 10)))"
        using False by (subst show_nat.simps) simp
      moreover have "int (n div 10) * 10 + int (n mod 10) = int n"
      proof -
        have "int n = int (n div 10 * 10 + n mod 10)" by simp
        also have "\<dots> = int (n div 10) * 10 + int (n mod 10)"
          by (simp only: of_nat_add of_nat_mult of_nat_numeral)
        finally show ?thesis by simp
      qed
      ultimately show ?thesis by (simp add: algebra_simps)
    qed
    finally show ?thesis .
  qed
qed

lemma length_show_nat: "n < 10 ^ k \<Longrightarrow> 0 < k \<Longrightarrow> length (show_nat n) \<le> k"
proof (induction n arbitrary: k rule: show_nat.induct)
  case (1 n)
  show ?case
  proof (cases "n < 10")
    case True
    with "1.prems" show ?thesis by (subst show_nat.simps) simp
  next
    case False
    with "1.prems" have k: "1 < k" by (cases "k = 1") auto
    then obtain k' where k': "k = Suc k'" "0 < k'" by (cases k) auto
    from "1.prems"(1) k' have "n div 10 < 10 ^ k'" by (simp add: less_mult_imp_div_less)
    from "1.IH" [OF False this k'(2)] k' False show ?thesis
      by (subst show_nat.simps) simp
  qed
qed

lemma zero_pad_digits: "list_all isDigit s \<Longrightarrow> list_all isDigit (zero_pad w s)"
  by (auto simp: zero_pad_def list_all_iff isDigit_def)

lemma digitsValue_zeros: "digitsValue 0 (replicate m (CHR ''0'')) = 0"
  by (induction m) (simp_all add: digitVal_def)

lemma digitsValue_zero_pad: "digitsValue 0 (zero_pad w s) = digitsValue 0 s"
  by (simp add: zero_pad_def digitsValue_zeros)

lemma zero_pad_nonempty: "s \<noteq> [] \<Longrightarrow> zero_pad w s \<noteq> []"
  by (simp add: zero_pad_def)

lemma padded_facts:
  "list_all isDigit (padded w n)" "padded w n \<noteq> []" "digitsValue 0 (padded w n) = int n"
  by (simp_all add: padded_def zero_pad_digits show_nat_digits zero_pad_nonempty
      show_nat_nonempty digitsValue_zero_pad digitsValue_show_nat)

lemma length_padded: "n < 10 ^ w \<Longrightarrow> 0 < w \<Longrightarrow> length (padded w n) = w"
  using length_show_nat [of n w] by (simp add: padded_def zero_pad_def)

lemma Sprintf_0d_nonneg: "0 \<le> n \<Longrightarrow> Sprintf_0d w n = padded w (nat n)"
  by (simp add: Sprintf_0d_def padded_def)

lemma digitsValue_mono: "list_all isDigit s \<Longrightarrow> 0 \<le> x \<Longrightarrow> x \<le> digitsValue x s"
proof (induction s arbitrary: x)
  case Nil
  then show ?case by simp
next
  case (Cons c cs)
  from Cons.prems digitVal_range [of c] have "0 \<le> x * 10 + digitVal c" "x \<le> x * 10 + digitVal c"
    by simp_all
  with Cons.IH [of "x * 10 + digitVal c"] Cons.prems show ?case by simp
qed

lemma leadingInt_loop_digits:
  assumes "list_all isDigit ds" and "r = [] \<or> \<not> isDigit (hd r)"
    and "0 \<le> x" and "digitsValue x ds \<le> 2 ^ 63"
  shows "leadingInt_loop x (ds @ r) = Some (digitsValue x ds, r)"
  using assms
proof (induction ds arbitrary: x)
  case Nil
  then show ?case by (cases r) auto
next
  case (Cons c cs)
  from Cons.prems digitVal_range [of c] have dv: "0 \<le> digitVal c" "isDigit c" by simp_all
  let ?y = "x * 10 + digitVal c"
  have y0: "0 \<le> ?y" using Cons.prems(3) dv by simp
  have "?y \<le> digitsValue ?y cs" using Cons.prems(1) y0 by (intro digitsValue_mono) simp_all
  with Cons.prems(4) have y: "?y \<le> 2 ^ 63" by simp
  with dv have x: "\<not> x > 2 ^ 63 div 10" by simp
  from Cons.IH [of ?y] Cons.prems y0 have "leadingInt_loop ?y (cs @ r) = Some (digitsValue ?y cs, r)"
    by simp
  with x y dv show ?case by (simp add: Let_def)
qed

lemma leadingFraction_loop_digits:
  assumes "list_all isDigit ds" and "r = [] \<or> \<not> isDigit (hd r)"
    and "0 \<le> x" and "digitsValue x ds \<le> 2 ^ 63"
  shows "leadingFraction_loop x sc False (ds @ r) = (digitsValue x ds, sc * 10 ^ length ds, r)"
  using assms
proof (induction ds arbitrary: x sc)
  case Nil
  then show ?case by (cases r) auto
next
  case (Cons c cs)
  from Cons.prems digitVal_range [of c] have dv: "0 \<le> digitVal c" "isDigit c" by simp_all
  let ?y = "x * 10 + digitVal c"
  have y0: "0 \<le> ?y" using Cons.prems(3) dv by simp
  have "?y \<le> digitsValue ?y cs" using Cons.prems(1) y0 by (intro digitsValue_mono) simp_all
  with Cons.prems(4) have y: "?y \<le> 2 ^ 63" by simp
  with dv have x: "\<not> x > (2 ^ 63 - 1) div 10" by simp
  from Cons.IH [of ?y "sc * 10"] Cons.prems y0
  have "leadingFraction_loop ?y (sc * 10) False (cs @ r)
        = (digitsValue ?y cs, sc * 10 * 10 ^ length cs, r)"
    by simp
  with x y dv show ?case by (simp add: Let_def)
qed

subsection \<open>Splitting and reading the terms\<close>

lemma digit_not_punct:
  "isDigit c \<Longrightarrow> c \<noteq> CHR '':'' \<and> c \<noteq> CHR ''.'' \<and> c \<noteq> CHR ''-'' \<and> c \<noteq> CHR ''+''"
  by (auto simp: isDigit_def)

lemma letters_not_number:
  "\<not> isNumberByte (CHR ''h'')" "\<not> isNumberByte (CHR ''m'')" "\<not> isNumberByte (CHR ''s'')"
  by (simp_all add: isNumberByte_def isDigit_def)

lemma strings_Split_none: "sep \<notin> set a \<Longrightarrow> strings_Split a sep = [a]"
  by (induction a) auto

lemma strings_Split_append:
  "sep \<notin> set a \<Longrightarrow> strings_Split (a @ sep # b) sep = a # strings_Split b sep"
  by (induction a) auto

lemma digits_no_sep:
  "list_all isDigit a \<Longrightarrow> CHR '':'' \<notin> set a \<and> CHR ''.'' \<notin> set a"
  using digit_not_punct by (auto simp: list_all_iff)

text \<open>One term of a duration: digits and a unit letter.\<close>

lemma parseTerm_whole:
  assumes D: "list_all isDigit D" "D \<noteq> []" "digitsValue 0 D = v"
    and u: "\<not> isNumberByte u" "unitMap [u] = Some unit" "0 < unit"
    and v: "v \<le> 2 ^ 63 div unit"
    and rest: "rest = [] \<or> isNumberByte (hd rest)"
  shows "parseTerm (D @ u # rest) = Some (v * unit, rest)"
proof -
  from u(1) have nd: "\<not> isDigit u" "u \<noteq> CHR ''.''" by (auto simp: isNumberByte_def)
  have "v \<le> 2 ^ 63"
  proof -
    have "(2::int) ^ 63 div unit \<le> 2 ^ 63"
      using u(3) zdiv_mono2 [of "2 ^ 63" 1 unit] by simp
    with v show ?thesis by simp
  qed
  hence li: "leadingInt (D @ u # rest) = Some (v, u # rest)"
    using leadingInt_loop_digits [of D "u # rest" 0] D nd by (simp add: leadingInt_def)
  have hd: "isNumberByte (hd (D @ u # rest))"
    using D by (cases D) (auto simp: isNumberByte_def)
  have tw: "takeWhile (\<lambda>c. \<not> isNumberByte c) (u # rest) = [u]"
    "dropWhile (\<lambda>c. \<not> isNumberByte c) (u # rest) = rest"
    using u(1) rest by (cases rest; simp)+
  show ?thesis
    using D(2) hd li nd tw u(2) v
    by (simp add: parseTerm_def Let_def)
qed

text \<open>
  An integer below \<open>2 ^ 53\<close> is a \<^verbatim>\<open>float64\<close>: rounding leaves it as it is.
\<close>

lemma round_half_even_int: "round_half_even (of_int i) = i"
  by (simp add: round_half_even_def)

lemma powerOfTwoFrom_pos: "0 < p \<Longrightarrow> 0 < powerOfTwoFrom p t"
proof (induction p t rule: powerOfTwoFrom.induct)
  case (1 p t)
  thus ?case by (cases "0 < p \<and> p < t") (simp_all add: powerOfTwoFrom.simps [of p t])
qed

lemma float64_int:
  assumes "0 \<le> n" "n < 2 ^ 53"
  shows "float64 (of_int n) = of_int n"
proof -
  have lt: "real_of_int n < 2 ^ 53"
    using assms(2) by (metis of_int_less_numeral_power_cancel_iff)
  show ?thesis
  proof (cases "real_of_int n < 2 ^ 52")
    case True
    define s where "s = powerOfTwoFrom 1 \<lceil>2 ^ 52 / real_of_int n\<rceil>"
    have s: "0 < s" unfolding s_def by (rule powerOfTwoFrom_pos) simp
    have "round_half_even (real_of_int n * real_of_int s) = n * s"
      using round_half_even_int [of "n * s"] by simp
    hence "real_of_int (round_half_even (real_of_int n * real_of_int s)) / real_of_int s
           = real_of_int n"
      using s by simp
    with True assms(1) show ?thesis by (simp add: float64_def Let_def s_def)
  next
    case False
    hence "\<lfloor>real_of_int n / 2 ^ 53\<rfloor> = 0" using lt assms(1) by (simp add: floor_eq_iff)
    moreover have "powerOfTwoFrom 1 1 = 1" by (simp add: powerOfTwoFrom.simps [of 1 1])
    ultimately show ?thesis
      using False assms(1) by (simp add: float64_def Let_def round_half_even_int)
  qed
qed

text \<open>Seconds with three decimals.\<close>

lemma parseTerm_seconds:
  assumes D: "list_all isDigit D" "D \<noteq> []" "digitsValue 0 D = v" "v < 60"
    and F: "list_all isDigit F" "length F = 3" "digitsValue 0 F = f" "0 \<le> f" "f < 1000"
  shows "parseTerm (D @ CHR ''.'' # F @ ''s'') = Some (v * 1000000000 + f * 1000000, [])"
proof -
  have v0: "0 \<le> v" using digitsValue_mono [of D 0] D by simp
  have li: "leadingInt (D @ CHR ''.'' # F @ ''s'') = Some (v, CHR ''.'' # F @ ''s'')"
    using leadingInt_loop_digits [of D "CHR ''.'' # F @ ''s''" 0] D
    by (simp add: leadingInt_def isDigit_def)
  have lf: "leadingFraction (F @ ''s'') = (f, 1000, ''s'')"
    using leadingFraction_loop_digits [of F "''s''" 0 1] F
    by (simp add: leadingFraction_def isDigit_def)
  have hd: "isNumberByte (hd (D @ CHR ''.'' # F @ ''s''))"
    using D by (cases D) (auto simp: isNumberByte_def)
  have tw: "takeWhile (\<lambda>c. \<not> isNumberByte c) ''s'' = ''s''"
    "dropWhile (\<lambda>c. \<not> isNumberByte c) ''s'' = []"
    by (simp_all add: letters_not_number)
  have um: "unitMap ''s'' = Some 1000000000" by (simp add: unitMap_def)
  have fl1: "float64 (real_of_int f) = real_of_int f"
    using float64_int [of f] F(4,5) by simp
  have fl2: "float64 1000000 = 1000000"
    using float64_int [of 1000000] by simp
  have fl3: "float64 (real_of_int (f * 1000000)) = real_of_int (f * 1000000)"
    using F(4,5) by (intro float64_int) simp_all
  have fr:
    "\<lfloor>float64 (float64 (real_of_int f) * float64 (real_of_int 1000000000 / real_of_int 1000))\<rfloor>
     = f * 1000000"
  proof -
    have "float64 (real_of_int f) * float64 (real_of_int 1000000000 / real_of_int 1000)
          = real_of_int (f * 1000000)"
      by (simp add: fl1 fl2)
    hence "float64 (float64 (real_of_int f)
             * float64 (real_of_int 1000000000 / real_of_int 1000))
           = real_of_int (f * 1000000)"
      by (simp only: fl3)
    thus ?thesis by (simp only: floor_of_int)
  qed
  have "parseTerm (D @ CHR ''.'' # F @ ''s'') =
          (if 0 < f
           then Some (v * 1000000000
                  + \<lfloor>float64 (float64 (real_of_int f)
                       * float64 (real_of_int 1000000000 / real_of_int 1000))\<rfloor>, [])
           else Some (v * 1000000000, []))"
    using D(2,4) F(2,4,5) v0 hd li lf tw um fr
    by (simp add: parseTerm_def Let_def del: of_int_numeral of_int_mult)
  thus ?thesis using F(4) by (simp only: fr split: if_splits) auto
qed

lemma ParseDuration_loop_Nil: "ParseDuration_loop d [] = Some d"
  by (simp add: ParseDuration_loop.simps)

lemma ParseDuration_loop_step:
  "s \<noteq> [] \<Longrightarrow> parseTerm s = Some (v, rest) \<Longrightarrow> 0 \<le> d \<Longrightarrow> 0 \<le> v \<Longrightarrow> d + v \<le> 2 ^ 63 \<Longrightarrow>
   ParseDuration_loop d s = ParseDuration_loop (d + v) rest"
  by (subst ParseDuration_loop.simps) (simp add: Let_def)

subsection \<open>The text of a duration of whole milliseconds\<close>

lemma sdiv_nonneg: "0 \<le> a \<Longrightarrow> 0 < b \<Longrightarrow> a sdiv b = a div (b::int)"
  by (cases "a = 0") (simp_all add: signed_divide_int_def)

lemma smod_nonneg: "0 \<le> a \<Longrightarrow> 0 < b \<Longrightarrow> a smod b = a mod (b::int)"
  by (cases "a = 0") (simp_all add: signed_modulo_int_def)

lemma Duration_Round_whole:
  "0 \<le> d \<Longrightarrow> d mod Millisecond = 0 \<Longrightarrow> Duration_Round d Millisecond = d"
  by (simp add: Duration_Round_def Millisecond_def smod_nonneg lessThanHalf_def Let_def)

lemma FormatDuration_whole:
  assumes "0 \<le> d" and "d mod Millisecond = 0"
  shows "FormatDuration d =
     padded 2 (hoursOf d) @ '':'' @ padded 2 (minutesOf d) @ '':'' @ padded 2 (secondsOf d)
     @ ''.'' @ padded 3 (millisOf d)"
proof -
  have h: "d sdiv Hour = d div Hour" "0 \<le> d div Hour"
    using assms(1) by (simp_all add: sdiv_nonneg Hour_def pos_imp_zdiv_nonneg_iff)
  have d1: "d - d div Hour * Hour = d mod Hour" by (simp add: minus_div_mult_eq_mod)
  have m: "(d mod Hour) sdiv Minute = d mod Hour div Minute" "0 \<le> d mod Hour div Minute"
    by (simp_all add: sdiv_nonneg Hour_def Minute_def pos_imp_zdiv_nonneg_iff)
  have d2: "d mod Hour - d mod Hour div Minute * Minute = d mod Minute"
  proof -
    have "d mod Hour - d mod Hour div Minute * Minute = d mod Hour mod Minute"
      by (simp add: minus_div_mult_eq_mod)
    also have "\<dots> = d mod Minute"
      by (simp add: Hour_def Minute_def mod_mod_cancel)
    finally show ?thesis .
  qed
  have s: "(d mod Minute) sdiv Second = d mod Minute div Second"
    "0 \<le> d mod Minute div Second"
    by (simp_all add: sdiv_nonneg Second_def Minute_def pos_imp_zdiv_nonneg_iff)
  have d3: "d mod Minute - d mod Minute div Second * Second = d mod Second"
  proof -
    have "d mod Minute - d mod Minute div Second * Second = d mod Minute mod Second"
      by (simp add: minus_div_mult_eq_mod)
    also have "\<dots> = d mod Second"
      by (simp add: Second_def Minute_def mod_mod_cancel)
    finally show ?thesis .
  qed
  have ms: "(d mod Second) sdiv Millisecond = d mod Second div Millisecond"
    "0 \<le> d mod Second div Millisecond"
    by (simp_all add: sdiv_nonneg Second_def Millisecond_def pos_imp_zdiv_nonneg_iff)
  show ?thesis
    unfolding FormatDuration_def Let_def Duration_Round_whole [OF assms]
      h(1) d1 m(1) d2 s(1) d3 ms(1)
    using h(2) m(2) s(2) ms(2)
    by (simp add: Sprintf_0d_nonneg hoursOf_def minutesOf_def secondsOf_def millisOf_def)
qed

lemma split_div_mod:
  fixes x :: int
  assumes "0 \<le> x" and "0 < b"
  obtains q r where "x = q * b + r" "0 \<le> r" "r < b" "0 \<le> q" "q = x div b" "r = x mod b"
proof
  show "x = x div b * b + x mod b" by simp
  show "0 \<le> x mod b" "x mod b < b" using assms(2) by simp_all
  show "0 \<le> x div b" using assms by (simp add: pos_imp_zdiv_nonneg_iff)
qed simp_all

lemma duration_parts:
  assumes "0 \<le> d" and "d mod Millisecond = 0"
  shows "int (hoursOf d) * 3600000000000 + int (minutesOf d) * 60000000000
         + (int (secondsOf d) * 1000000000 + int (millisOf d) * 1000000) = d"
    and "minutesOf d < 60" and "secondsOf d < 60" and "millisOf d < 1000"
proof -
  obtain h r1 where h: "d = h * 3600000000000 + r1" "0 \<le> r1" "r1 < 3600000000000" "0 \<le> h"
      "h = d div 3600000000000" "r1 = d mod 3600000000000"
    using split_div_mod [of d 3600000000000] assms(1) by auto
  obtain m r2 where m: "r1 = m * 60000000000 + r2" "0 \<le> r2" "r2 < 60000000000" "0 \<le> m"
      "m = r1 div 60000000000" "r2 = r1 mod 60000000000"
    using split_div_mod [of r1 60000000000] h(2) by auto
  have r2: "r2 = d mod 60000000000"
    unfolding m(6) h(6) by (simp add: mod_mod_cancel)
  obtain s r3 where s: "r2 = s * 1000000000 + r3" "0 \<le> r3" "r3 < 1000000000" "0 \<le> s"
      "s = r2 div 1000000000" "r3 = r2 mod 1000000000"
    using split_div_mod [of r2 1000000000] m(2) by auto
  have r3: "r3 = d mod 1000000000"
    unfolding s(6) r2 by (simp add: mod_mod_cancel)
  obtain ms r4 where ms: "r3 = ms * 1000000 + r4" "0 \<le> r4" "r4 < 1000000" "0 \<le> ms"
      "ms = r3 div 1000000" "r4 = r3 mod 1000000"
    using split_div_mod [of r3 1000000] s(2) by auto
  have r4: "r4 = 0"
    unfolding ms(6) r3 using assms(2) by (simp add: mod_mod_cancel Millisecond_def)
  have names: "hoursOf d = nat h" "minutesOf d = nat m" "secondsOf d = nat s"
    "millisOf d = nat ms"
    unfolding hoursOf_def minutesOf_def secondsOf_def millisOf_def
      Hour_def Minute_def Second_def Millisecond_def
    using h(5,6) m(5) r2 s(5) r3 ms(5) by simp_all
  show "int (hoursOf d) * 3600000000000 + int (minutesOf d) * 60000000000
         + (int (secondsOf d) * 1000000000 + int (millisOf d) * 1000000) = d"
    unfolding names using h(1,4) m(1,4) s(1,4) ms(1,4) r4 by simp
  have "m < 60" using m(1,2) h(3) by linarith
  thus "minutesOf d < 60" unfolding names using m(4) by simp
  have "s < 60" using s(1,2) m(3) by linarith
  thus "secondsOf d < 60" unfolding names using s(4) by simp
  have "ms < 1000" using ms(1,2) s(3) by linarith
  thus "millisOf d < 1000" unfolding names using ms(4) by simp
qed

lemma hours_bound:
  assumes "0 \<le> d" and "d \<le> maxDuration"
  shows "int (hoursOf d) \<le> 2 ^ 63 div 3600000000000"
proof -
  have "d div 3600000000000 \<le> (2 ^ 63 - 1) div 3600000000000"
    using assms(2) by (intro zdiv_mono1) (simp_all add: maxDuration_def)
  moreover have "0 \<le> d div 3600000000000" using assms(1) by (simp add: pos_imp_zdiv_nonneg_iff)
  ultimately show ?thesis by (simp add: hoursOf_def Hour_def)
qed

subsection \<open>The round trip\<close>

lemma time_ParseDuration_formatted:
  assumes H: "list_all isDigit H" "H \<noteq> []" "digitsValue 0 H = h" "h \<le> 2 ^ 63 div 3600000000000"
    and M: "list_all isDigit M" "M \<noteq> []" "digitsValue 0 M = m" "m < 60"
    and S: "list_all isDigit S" "S \<noteq> []" "digitsValue 0 S = s" "s < 60"
    and F: "list_all isDigit F" "length F = 3" "digitsValue 0 F = f" "f < 1000"
    and total: "h * 3600000000000 + m * 60000000000 + (s * 1000000000 + f * 1000000) = d"
      "d \<le> 2 ^ 63 - 1"
  shows "time_ParseDuration (H @ ''h'' @ M @ ''m'' @ (S @ ''.'' @ F) @ ''s'') = Some d"
proof -
  have nn: "0 \<le> h" "0 \<le> m" "0 \<le> s" "0 \<le> f"
    using digitsValue_mono [of H 0] digitsValue_mono [of M 0] digitsValue_mono [of S 0]
      digitsValue_mono [of F 0] H M S F by simp_all
  let ?r2 = "S @ CHR ''.'' # F @ ''s''"
  let ?r1 = "M @ CHR ''m'' # ?r2"
  let ?s = "H @ CHR ''h'' # ?r1"
  have eq: "H @ ''h'' @ M @ ''m'' @ (S @ ''.'' @ F) @ ''s'' = ?s" by simp
  have hd1: "isNumberByte (hd ?r1)" using M by (cases M) (auto simp: isNumberByte_def)
  have hd2: "isNumberByte (hd ?r2)" using S by (cases S) (auto simp: isNumberByte_def)
  have t1: "parseTerm ?s = Some (h * 3600000000000, ?r1)"
    using H hd1 by (intro parseTerm_whole) (simp_all add: letters_not_number unitMap_def)
  have t2: "parseTerm ?r1 = Some (m * 60000000000, ?r2)"
    using M hd2 by (intro parseTerm_whole) (simp_all add: letters_not_number unitMap_def)
  have t3: "parseTerm ?r2 = Some (s * 1000000000 + f * 1000000, [])"
    using S F nn by (intro parseTerm_seconds) simp_all
  have b: "h * 3600000000000 \<le> 2 ^ 63"
    "h * 3600000000000 + m * 60000000000 \<le> 2 ^ 63"
    "h * 3600000000000 + m * 60000000000 + (s * 1000000000 + f * 1000000) \<le> 2 ^ 63"
    using total nn by simp_all
  have "ParseDuration_loop 0 ?s = ParseDuration_loop (0 + h * 3600000000000) ?r1"
    using t1 nn b by (intro ParseDuration_loop_step) simp_all
  also have "\<dots> = ParseDuration_loop (h * 3600000000000 + m * 60000000000) ?r2"
    using t2 nn b ParseDuration_loop_step [of ?r1 "m * 60000000000" ?r2 "h * 3600000000000"]
    using M(2) by simp
  also have "\<dots> = ParseDuration_loop (h * 3600000000000 + m * 60000000000
                       + (s * 1000000000 + f * 1000000)) []"
    using t3 nn b
      ParseDuration_loop_step [of ?r2 "s * 1000000000 + f * 1000000" "[]"
        "h * 3600000000000 + m * 60000000000"]
    using S(2) by simp
  finally have loop: "ParseDuration_loop 0 ?s = Some d"
    using total(1) by (simp add: ParseDuration_loop_Nil)
  have first: "hd ?s \<noteq> CHR ''-''" "hd ?s \<noteq> CHR ''+''"
    using H digit_not_punct [of "hd H"] by (cases H; simp)+
  have long: "?s \<noteq> ''0''" "?s \<noteq> []"
    using H(2) by (cases H; simp)+
  show ?thesis
    unfolding eq using loop first long total(2)
    by (simp add: time_ParseDuration_def Let_def)
qed

text \<open>
  Claim C9, as amended. For every duration that is not negative and is a whole number
  of milliseconds, formatting with \<^verbatim>\<open>FormatDuration\<close> and parsing the text with
  \<^verbatim>\<open>ParseDurationFromString\<close> gives the duration back; in particular for the duration
  \<^verbatim>\<open>00:01:02.500\<close>.
\<close>

theorem duration_round_trip:
  assumes "0 \<le> d" and "d \<le> maxDuration" and "d mod Millisecond = 0"
  shows "ParseDurationFromString (FormatDuration d) = Inr d"
proof -
  let ?H = "padded 2 (hoursOf d)" and ?M = "padded 2 (minutesOf d)"
  let ?S = "padded 2 (secondsOf d)" and ?F = "padded 3 (millisOf d)"
  note parts = duration_parts [OF assms(1,3)]
  have fmt: "FormatDuration d = ?H @ CHR '':'' # ?M @ CHR '':'' # (?S @ ''.'' @ ?F)"
    using FormatDuration_whole [OF assms(1,3)] by simp
  have nosep: "CHR '':'' \<notin> set ?H" "CHR '':'' \<notin> set ?M" "CHR '':'' \<notin> set (?S @ ''.'' @ ?F)"
    using digits_no_sep [of ?H] digits_no_sep [of ?M] digits_no_sep [of ?S]
      digits_no_sep [of ?F]
    by (simp_all add: padded_facts)
  have split: "strings_Split (FormatDuration d) (CHR '':'') = [?H, ?M, ?S @ ''.'' @ ?F]"
    unfolding fmt
    by (simp only: strings_Split_append [OF nosep(1)] strings_Split_append [OF nosep(2)]
        strings_Split_none [OF nosep(3)])
  have lenF: "length ?F = 3" using parts(4) by (intro length_padded) simp_all
  have "time_ParseDuration (?H @ ''h'' @ ?M @ ''m'' @ (?S @ ''.'' @ ?F) @ ''s'') = Some d"
  proof (rule time_ParseDuration_formatted)
    show "int (hoursOf d) \<le> 2 ^ 63 div 3600000000000"
      using assms(1,2) by (rule hours_bound)
    show "int (hoursOf d) * 3600000000000 + int (minutesOf d) * 60000000000
          + (int (secondsOf d) * 1000000000 + int (millisOf d) * 1000000) = d"
      by (rule parts(1))
    show "d \<le> 2 ^ 63 - 1" using assms(2) by (simp add: maxDuration_def)
  qed (use parts(2-4) lenF in \<open>simp_all add: padded_facts\<close>)
  thus ?thesis
    by (simp add: ParseDurationFromString_def Let_def split)
qed

theorem duration_round_trip_witness:
  "FormatDuration 62500000000 = ''00:01:02.500'' \<and>
   ParseDurationFromString (FormatDuration 62500000000) = Inr 62500000000"
proof -
  have fmt: "FormatDuration 62500000000 = ''00:01:02.500''" by code_simp
  have rt: "ParseDurationFromString (FormatDuration 62500000000) = Inr 62500000000"
    by (rule duration_round_trip) (simp_all add: maxDuration_def Millisecond_def)
  from fmt rt show ?thesis by (rule conjI)
qed

text \<open>
  The claim as first stated holds of no duration with a part below the millisecond,
  which the format rounds away (1 nanosecond comes back as 0), and of no negative
  duration, whose text does not parse.
\<close>

theorem duration_round_trip_counterexample:
  "ParseDurationFromString (FormatDuration 1) = Inr 0 \<and>
   ParseDurationFromString (FormatDuration 62500400000) = Inr 62500000000 \<and>
   FormatDuration (- 1500000000) = ''00:00:-1.-500'' \<and>
   ParseDurationFromString (FormatDuration (- 1500000000))
     = Inl (FailedToParseDuration ''00:00:-1.-500'')"
  by code_simp

end
